theory Spec2Isabelle
  imports Complex_Main
begin

section \<open>Values of the host language\<close>

text \<open>
  The program is one JavaScript module, \<^verbatim>\<open>src/main.js\<close>: a linear startup sequence
  (lines 5 to 99 and line 149) and the per-frame callback \<^verbatim>\<open>frame\<close> (lines 111 to 148)
  with its helper \<^verbatim>\<open>getTransformationMatrix\<close> (lines 101 to 109).

  An exception thrown by a statement, or the rejection of an awaited promise, is a value
  of \<open>js_error\<close>. The module has no \<^verbatim>\<open>try\<close> and no \<^verbatim>\<open>catch\<close>.
\<close>

datatype js_error = TypeError | RangeError | OperationError | LoadError

text \<open>
  A finite Number is a double: a rational \<open>m * 2 ^ e\<close> with \<open>\<bar>m\<bar> < 2 ^ 53\<close> and
  \<open>- 1074 \<le> e\<close>. An arithmetic operation on Numbers gives the double nearest to the
  exact result, the one with the even \<open>m\<close> when two are equally near. \<open>toDouble\<close> is
  that rounding: \<open>exponent a\<close> is the \<open>e\<close> with \<open>2 ^ e \<le> a < 2 ^ (e + 1)\<close> for a positive
  \<open>a\<close>, and the spacing of the doubles around \<open>a\<close> is \<open>2 ^ (e - 52)\<close>, or \<open>2 ^ (- 1074)\<close>
  below the normal range. The largest double is not represented: no Number of the
  program comes near it.
\<close>

fun bitLength :: "nat \<Rightarrow> nat" where
  "bitLength n = (if n = 0 then 0 else Suc (bitLength (n div 2)))"

declare bitLength.simps [simp del]

definition exponent :: "rat \<Rightarrow> int" where
  "exponent a =
     (if 1 \<le> a then int (bitLength (nat \<lfloor>a\<rfloor>)) - 1
      else - int (bitLength (nat (\<lceil>1 / a\<rceil> - 1))))"

definition pow2 :: "int \<Rightarrow> rat" where
  "pow2 e = (if 0 \<le> e then 2 ^ nat e else 1 / 2 ^ nat (- e))"

definition roundHalfEven :: "rat \<Rightarrow> int" where
  "roundHalfEven q =
     (let r = \<lfloor>q\<rfloor>; f = q - of_int r
      in if f < 1 / 2 then r else if 1 / 2 < f then r + 1 else if even r then r else r + 1)"

definition toDouble :: "rat \<Rightarrow> rat" where
  "toDouble x =
     (if x = 0 then 0
      else let a = \<bar>x\<bar>;
               u = pow2 (max (exponent a) (- 1022) - 52)
           in sgn x * of_int (roundHalfEven (a / u)) * u)"

text \<open>The operators \<^verbatim>\<open>*\<close> and \<^verbatim>\<open>/\<close> on finite Numbers, the divisor not zero.\<close>

definition js_times :: "rat \<Rightarrow> rat \<Rightarrow> rat" where
  "js_times a b = toDouble (a * b)"

definition js_quot :: "rat \<Rightarrow> rat \<Rightarrow> rat" where
  "js_quot a b = toDouble (a / b)"

text \<open>
  A Number that may come out of a division of two non-negative integers: JavaScript
  division does not throw, \<^verbatim>\<open>n / 0\<close> is \<^verbatim>\<open>Infinity\<close> and \<^verbatim>\<open>0 / 0\<close> is \<^verbatim>\<open>NaN\<close>.
\<close>

datatype jsnum = Num rat | Infinity | NaN

definition js_div :: "nat \<Rightarrow> nat \<Rightarrow> jsnum" where
  "js_div a b =
     (if b = 0 then (if a = 0 then NaN else Infinity)
      else Num (js_quot (of_nat a) (of_nat b)))"

text \<open>
  \<^verbatim>\<open>canvas.width\<close> and \<^verbatim>\<open>canvas.height\<close> are IDL attributes of type
  \<^verbatim>\<open>unsigned long\<close> that reflect a content attribute. An assignment converts the Number
  to an unsigned long (the fraction is dropped, the result taken modulo \<open>2 ^ 32\<close>) and
  stores it when it is at most \<open>2147483647\<close>, the attribute's default otherwise (300 for
  the width, 150 for the height). Reading the attribute gives the stored integer.
\<close>

definition ToUnsignedLong :: "rat \<Rightarrow> nat" where
  "ToUnsignedLong x = nat ((if x < 0 then - \<lfloor>- x\<rfloor> else \<lfloor>x\<rfloor>) mod 2 ^ 32)"

definition canvas_dimension :: "nat \<Rightarrow> rat \<Rightarrow> nat" where
  "canvas_dimension dflt x =
     (let n = ToUnsignedLong x in if n \<le> 2147483647 then n else dflt)"

text \<open>
  A \<^verbatim>\<open>Float32Array\<close> is the list of its elements; its length is fixed when it is
  created, and it has four bytes per element. All the typed arrays of the program start
  at byte offset 0 of a buffer of their own.
\<close>

type_synonym Float32Array = "jsnum list"

definition byteLength :: "Float32Array \<Rightarrow> nat" where
  "byteLength a = 4 * length a"

definition byteOffset :: "Float32Array \<Rightarrow> nat" where
  "byteOffset a = 0"

section \<open>The imported modules\<close>

text \<open>
  The five constants that the module imports from \<^verbatim>\<open>/src/cube.js\<close> are parameters.
  So are the numeric functions of the matrix library \<^verbatim>\<open>wgpu-matrix\<close> and of
  \<^verbatim>\<open>Math\<close>, which compute in floating point: each library function is given by the
  entries it computes, a function of the index; what the program fixes is which array
  the entries are written to. A matrix of the library is a \<^verbatim>\<open>Float32Array\<close> of sixteen
  elements: \<^verbatim>\<open>mat4.create()\<close> returns a new one filled with zeros,
  \<^verbatim>\<open>mat4.identity()\<close> and \<^verbatim>\<open>mat4.perspective(...)\<close> without a destination fill a new
  one, and a function called with a destination writes to it and returns it.
\<close>

record deps =
  cubeVertexArray :: Float32Array
  cubeVertexSize :: nat
  cubeUVOffset :: nat
  cubePositionOffset :: nat
  cubeVertexCount :: nat
  Math_PI :: rat
  Math_sin :: "rat \<Rightarrow> rat"
  Math_cos :: "rat \<Rightarrow> rat"
  perspective_entry :: "rat \<Rightarrow> jsnum \<Rightarrow> rat \<Rightarrow> rat \<Rightarrow> nat \<Rightarrow> jsnum"
  translate_entry :: "Float32Array \<Rightarrow> rat list \<Rightarrow> nat \<Rightarrow> jsnum"
  rotate_entry :: "Float32Array \<Rightarrow> rat list \<Rightarrow> rat \<Rightarrow> nat \<Rightarrow> jsnum"
  multiply_entry :: "Float32Array \<Rightarrow> Float32Array \<Rightarrow> nat \<Rightarrow> jsnum"

text \<open>
  Writing the sixteen entries of a matrix into the array \<open>dst\<close>. A typed array ignores
  a write past its end, so the length of \<open>dst\<close> never changes.
\<close>

definition store16 :: "Float32Array \<Rightarrow> (nat \<Rightarrow> jsnum) \<Rightarrow> Float32Array" where
  "store16 dst f = map (\<lambda>k. if k < 16 then f k else dst ! k) [0..<length dst]"

definition mat4_create :: Float32Array where
  "mat4_create = replicate 16 (Num 0)"

definition mat4_identity :: Float32Array where
  "mat4_identity = store16 mat4_create (\<lambda>k. Num (if k mod 5 = 0 then 1 else 0))"

definition vec3_fromValues :: "rat \<Rightarrow> rat \<Rightarrow> rat \<Rightarrow> rat list" where
  "vec3_fromValues x y z = [x, y, z]"

definition mat4_perspective :: "deps \<Rightarrow> rat \<Rightarrow> jsnum \<Rightarrow> rat \<Rightarrow> rat \<Rightarrow> Float32Array" where
  "mat4_perspective d fov asp near far =
     store16 mat4_create (perspective_entry d fov asp near far)"

definition mat4_translate ::
  "deps \<Rightarrow> Float32Array \<Rightarrow> rat list \<Rightarrow> Float32Array \<Rightarrow> Float32Array" where
  "mat4_translate d m v dst = store16 dst (translate_entry d m v)"

definition mat4_rotate ::
  "deps \<Rightarrow> Float32Array \<Rightarrow> rat list \<Rightarrow> rat \<Rightarrow> Float32Array \<Rightarrow> Float32Array" where
  "mat4_rotate d m axis angle dst = store16 dst (rotate_entry d m axis angle)"

definition mat4_multiply ::
  "deps \<Rightarrow> Float32Array \<Rightarrow> Float32Array \<Rightarrow> Float32Array \<Rightarrow> Float32Array" where
  "mat4_multiply d a b dst = store16 dst (multiply_entry d a b)"

section \<open>The graphics device\<close>

text \<open>
  Every object the device creates has a handle, taken from a counter. The device keeps
  the textures and the buffers it has created. A call of the graphics API or of the host
  is also recorded as an event, in program order.
\<close>

type_synonym handle = nat

record texture =
  tex_width :: nat
  tex_height :: nat
  tex_destroyed :: bool

record gpubuffer =
  buf_size :: nat
  buf_mapped :: bool
  buf_data :: Float32Array

record device =
  next_handle :: handle
  textures :: "handle \<rightharpoonup> texture"
  buffers :: "handle \<rightharpoonup> gpubuffer"

datatype view = TextureView handle | CanvasTextureView

datatype command =
    BeginRenderPass "view option" view
  | SetPipeline handle
  | SetBindGroup nat handle
  | SetVertexBuffer nat handle
  | Draw nat
  | EndPass

datatype event =
    ConsoleError string
  | CreateShaderModule handle string
  | Configure string
  | CreateBuffer handle nat bool
  | MappedSet handle Float32Array
  | Unmap handle
  | CreateRenderPipeline handle handle nat nat nat string
  | CreateTexture handle nat nat
  | DestroyTexture handle
  | CreateBindGroup handle handle handle
  | CreateView handle
  | WriteBuffer handle nat Float32Array nat nat
  | Submit "command list list"
  | RequestAnimationFrame

text \<open>
  A shader module, a pipeline, a bind group: a new handle and nothing else that the
  program reads.
\<close>

definition createObject :: "device \<Rightarrow> handle \<times> device" where
  "createObject dev = (next_handle dev, dev\<lparr>next_handle := next_handle dev + 1\<rparr>)"

text \<open>\<^verbatim>\<open>device.createTexture({size: [w, h], ...})\<close>: a new texture of that size.\<close>

definition createTexture :: "nat \<Rightarrow> nat \<Rightarrow> device \<Rightarrow> handle \<times> device" where
  "createTexture w h dev =
     (next_handle dev,
      dev\<lparr>next_handle := next_handle dev + 1,
          textures := (textures dev)(next_handle dev \<mapsto>
            \<lparr>tex_width = w, tex_height = h, tex_destroyed = False\<rparr>)\<rparr>)"

text \<open>\<^verbatim>\<open>texture.destroy()\<close>: the texture stays in the device's table, marked destroyed.\<close>

definition destroy :: "handle \<Rightarrow> device \<Rightarrow> device" where
  "destroy t dev =
     (case textures dev t of
        None \<Rightarrow> dev
      | Some x \<Rightarrow> dev\<lparr>textures := (textures dev)(t \<mapsto> x\<lparr>tex_destroyed := True\<rparr>)\<rparr>)"

text \<open>
  \<^verbatim>\<open>device.createBuffer({size, usage, mappedAtCreation})\<close>: a new zero-filled buffer.
\<close>

definition createBuffer :: "nat \<Rightarrow> bool \<Rightarrow> device \<Rightarrow> handle \<times> device" where
  "createBuffer sz mapped dev =
     (next_handle dev,
      dev\<lparr>next_handle := next_handle dev + 1,
          buffers := (buffers dev)(next_handle dev \<mapsto>
            \<lparr>buf_size = sz, buf_mapped = mapped,
             buf_data = replicate (sz div 4) (Num 0)\<rparr>)\<rparr>)"

text \<open>
  \<^verbatim>\<open>new Float32Array(buffer.getMappedRange()).set(data)\<close>: the data overwrite the start
  of a mapped buffer.
\<close>

definition setMapped :: "handle \<Rightarrow> Float32Array \<Rightarrow> device \<Rightarrow> device" where
  "setMapped b data dev =
     (case buffers dev b of
        None \<Rightarrow> dev
      | Some x \<Rightarrow>
          if buf_mapped x \<and> byteLength data \<le> buf_size x
          then dev\<lparr>buffers := (buffers dev)(b \<mapsto>
                 x\<lparr>buf_data := data @ drop (length data) (buf_data x)\<rparr>)\<rparr>
          else dev)"

definition unmap :: "handle \<Rightarrow> device \<Rightarrow> device" where
  "unmap b dev =
     (case buffers dev b of
        None \<Rightarrow> dev
      | Some x \<Rightarrow> dev\<lparr>buffers := (buffers dev)(b \<mapsto> x\<lparr>buf_mapped := False\<rparr>)\<rparr>)"

text \<open>
  \<^verbatim>\<open>device.queue.writeBuffer(buffer, bufferOffset, data, dataOffset, size)\<close> with an
  \<^verbatim>\<open>ArrayBuffer\<close> as data: offsets and size are in bytes. A write that is not aligned to
  four bytes, that reads past the data, that goes past the end of the buffer or to a
  mapped buffer, is an error that leaves the buffer as it is.
\<close>

definition writeBuffer ::
  "handle \<Rightarrow> nat \<Rightarrow> Float32Array \<Rightarrow> nat \<Rightarrow> nat \<Rightarrow> device \<Rightarrow> device" where
  "writeBuffer b bufferOffset data dataOffset sz dev =
     (case buffers dev b of
        None \<Rightarrow> dev
      | Some x \<Rightarrow>
          if bufferOffset mod 4 = 0 \<and> dataOffset mod 4 = 0 \<and> sz mod 4 = 0
             \<and> dataOffset + sz \<le> byteLength data
             \<and> bufferOffset + sz \<le> buf_size x \<and> \<not> buf_mapped x
          then dev\<lparr>buffers := (buffers dev)(b \<mapsto> x\<lparr>buf_data :=
                 take (bufferOffset div 4) (buf_data x)
                 @ take (sz div 4) (drop (dataOffset div 4) data)
                 @ drop (bufferOffset div 4 + sz div 4) (buf_data x)\<rparr>)\<rparr>
          else dev)"

section \<open>The state of the module\<close>

text \<open>
  The canvas's size, the device, and the module's variables. Only \<^verbatim>\<open>depthTexture\<close> and
  \<^verbatim>\<open>aspect\<close> are declared with \<^verbatim>\<open>let\<close>; the two matrices and the render pass
  descriptor are constants whose contents are written to.
\<close>

record state =
  canvas_width :: nat
  canvas_height :: nat
  devicePixelRatio :: rat
  device :: device
  verticesBuffer :: handle
  renderPipeline :: handle
  depthTexture :: "handle option"
  uniformBuffer :: handle
  uniformBindGroup :: handle
  colorAttachment_view :: "view option"
  depthStencilAttachment_view :: view
  aspect :: jsnum
  projectionMatrix :: Float32Array
  modelViewProjectionMatrix :: Float32Array

section \<open>The per-frame callback\<close>

text \<open>
  What the host supplies to one invocation of \<^verbatim>\<open>frame\<close>: the layout size of the canvas
  element and the clock.
\<close>

record frame_input =
  clientWidth :: nat
  clientHeight :: nat
  Date_now :: nat

text \<open>Lines 101 to 109. The result is the array \<^verbatim>\<open>modelViewProjectionMatrix\<close>.\<close>

definition getTransformationMatrix :: "deps \<Rightarrow> nat \<Rightarrow> state \<Rightarrow> state" where
  "getTransformationMatrix d date_now s =
     (let viewMatrix = mat4_identity;
          viewMatrix = mat4_translate d viewMatrix (vec3_fromValues 0 0 (- 4)) viewMatrix;
          now = js_quot (of_nat date_now) 1000;
          viewMatrix = mat4_rotate d viewMatrix
            (vec3_fromValues (Math_sin d now) (Math_cos d now) 0) 1 viewMatrix
      in s\<lparr>modelViewProjectionMatrix :=
             mat4_multiply d (projectionMatrix s) viewMatrix (modelViewProjectionMatrix s)\<rparr>)"

text \<open>
  Lines 112 and 113: the layout size, an integer, times the pixel ratio, in floating
  point.
\<close>

definition currentWidth :: "state \<Rightarrow> frame_input \<Rightarrow> rat" where
  "currentWidth s i = js_times (of_nat (clientWidth i)) (devicePixelRatio s)"

definition currentHeight :: "state \<Rightarrow> frame_input \<Rightarrow> rat" where
  "currentHeight s i = js_times (of_nat (clientHeight i)) (devicePixelRatio s)"

text \<open>The condition of line 115. A Number is truthy when it is not zero.\<close>

definition needsResize :: "state \<Rightarrow> frame_input \<Rightarrow> bool" where
  "needsResize s i \<longleftrightarrow>
     (currentWidth s i \<noteq> of_nat (canvas_width s)
        \<or> currentHeight s i \<noteq> of_nat (canvas_height s)
        \<or> depthTexture s = None)
     \<and> currentWidth s i \<noteq> 0 \<and> currentHeight s i \<noteq> 0"

text \<open>
  Lines 116 to 124, the body of the conditional, for the values \<open>cw\<close> and \<open>ch\<close> of
  \<^verbatim>\<open>currentWidth\<close> and \<^verbatim>\<open>currentHeight\<close>. The size of the new texture is read back
  from the canvas.
\<close>

definition resize :: "rat \<Rightarrow> rat \<Rightarrow> state \<Rightarrow> state \<times> event list" where
  "resize cw ch s =
     (let (s, ev1) = (case depthTexture s of
                        None \<Rightarrow> (s, [])
                      | Some t \<Rightarrow> (s\<lparr>device := destroy t (device s)\<rparr>, [DestroyTexture t]));
          s = s\<lparr>canvas_width := canvas_dimension 300 cw\<rparr>;
          s = s\<lparr>canvas_height := canvas_dimension 150 ch\<rparr>;
          s = s\<lparr>aspect := js_div (canvas_width s) (canvas_height s)\<rparr>;
          (t, dev) = createTexture (canvas_width s) (canvas_height s) (device s)
      in (s\<lparr>device := dev, depthTexture := Some t\<rparr>,
          ev1 @ [CreateTexture t (canvas_width s) (canvas_height s)]))"

text \<open>
  Lines 126 to 147, for the depth texture \<open>t\<close> that the variable holds. The calls of the
  graphics API in these lines report an invalid argument to the device's error scopes,
  which the program does not read: none of them throws.
\<close>

definition render :: "deps \<Rightarrow> handle \<Rightarrow> state \<Rightarrow> frame_input \<Rightarrow> state \<times> event list" where
  "render d t s i =
     (let s = s\<lparr>depthStencilAttachment_view := TextureView t\<rparr>;
          s = getTransformationMatrix d (Date_now i) s;
          transformationMatrix = modelViewProjectionMatrix s;
          s = s\<lparr>device := writeBuffer (uniformBuffer s) 0 transformationMatrix
                (byteOffset transformationMatrix) (byteLength transformationMatrix)
                (device s)\<rparr>;
          s = s\<lparr>colorAttachment_view := Some CanvasTextureView\<rparr>;
          commandEncoder =
            [BeginRenderPass (colorAttachment_view s) (depthStencilAttachment_view s),
             SetPipeline (renderPipeline s),
             SetBindGroup 0 (uniformBindGroup s),
             SetVertexBuffer 0 (verticesBuffer s),
             Draw (cubeVertexCount d),
             EndPass]
      in (s, [CreateView t,
              WriteBuffer (uniformBuffer s) 0 transformationMatrix
                (byteOffset transformationMatrix) (byteLength transformationMatrix),
              Submit [commandEncoder],
              RequestAnimationFrame]))"

text \<open>
  Lines 111 to 148. \<^verbatim>\<open>depthTexture.createView()\<close> in line 126 throws a TypeError when
  the variable holds no texture.
\<close>

definition frame :: "deps \<Rightarrow> state \<Rightarrow> frame_input \<Rightarrow> js_error + state \<times> event list" where
  "frame d s i =
     (let (s, ev1) = (if needsResize s i
                      then resize (currentWidth s i) (currentHeight s i) s
                      else (s, []))
      in case depthTexture s of
           None \<Rightarrow> Inl TypeError
         | Some t \<Rightarrow> (let (s, ev2) = render d t s i in Inr (s, ev1 @ ev2)))"

section \<open>The module's top level\<close>

text \<open>
  What the host decides at startup. \<^verbatim>\<open>requestAdapter()\<close> resolves to \<^verbatim>\<open>null\<close> when
  there is no adapter, \<^verbatim>\<open>requestDevice()\<close> and \<^verbatim>\<open>loadFile\<close> (imported from
  \<^verbatim>\<open>/src/load.js\<close>) may reject, \<^verbatim>\<open>querySelector\<close> and
  \<^verbatim>\<open>getContext\<close> may return \<^verbatim>\<open>null\<close>, and the creation of a buffer that is mapped at
  creation throws when the mapping cannot be allocated.
\<close>

record host =
  navigator_gpu :: bool
  adapter_found :: bool
  requestDevice_rejects :: "js_error option"
  loadFile :: "js_error + string"
  canvas_found :: bool
  context_found :: bool
  canvas_clientWidth :: nat
  canvas_clientHeight :: nat
  window_devicePixelRatio :: rat
  getPreferredCanvasFormat :: string
  mapping_throws :: "js_error option"

text \<open>
  Lines 20 to 99 and line 149, once the device, the shader module \<open>sm\<close> and the canvas
  context are there and the vertex buffer \<open>vb\<close> has been created in \<open>dev\<close>. The local
  names \<open>dpr\<close>, \<open>vb\<close>, \<open>rp\<close>, \<open>dt\<close>, \<open>ub\<close>, \<open>bg\<close> and \<open>asp\<close> stand for the module's
  \<^verbatim>\<open>devicePixelRatio\<close>, \<^verbatim>\<open>verticesBuffer\<close>, \<^verbatim>\<open>renderPipeline\<close>, \<^verbatim>\<open>depthTexture\<close>,
  \<^verbatim>\<open>uniformBuffer\<close>, \<^verbatim>\<open>uniformBindGroup\<close> and \<^verbatim>\<open>aspect\<close>, which are also the names
  of the state's fields. \<^verbatim>\<open>window.devicePixelRatio\<close> is read once, in line 20, as the
  double nearest to the ratio of the host.
\<close>

definition build ::
  "deps \<Rightarrow> host \<Rightarrow> handle \<Rightarrow> handle \<Rightarrow> device \<Rightarrow> state \<times> event list" where
  "build d h sm vb dev =
     (let dpr = toDouble (window_devicePixelRatio h);
          width = canvas_dimension 300 (js_times (of_nat (canvas_clientWidth h)) dpr);
          height = canvas_dimension 150 (js_times (of_nat (canvas_clientHeight h)) dpr);
          dev = setMapped vb (cubeVertexArray d) dev;
          dev = unmap vb dev;
          (rp, dev) = createObject dev;
          (dt, dev) = createTexture width height dev;
          uniformBufferSize = 4 * 16;
          (ub, dev) = createBuffer uniformBufferSize False dev;
          (bg, dev) = createObject dev;
          asp = js_div width height
      in (\<lparr>canvas_width = width,
           canvas_height = height,
           devicePixelRatio = dpr,
           device = dev,
           verticesBuffer = vb,
           renderPipeline = rp,
           depthTexture = Some dt,
           uniformBuffer = ub,
           uniformBindGroup = bg,
           colorAttachment_view = None,
           depthStencilAttachment_view = TextureView dt,
           aspect = asp,
           projectionMatrix =
             mat4_perspective d (js_quot (js_times 2 (Math_PI d)) 5) asp 1 100,
           modelViewProjectionMatrix = mat4_create\<rparr>,
          [MappedSet vb (cubeVertexArray d),
           Unmap vb,
           CreateRenderPipeline rp sm (cubeVertexSize d) (cubePositionOffset d)
             (cubeUVOffset d) (getPreferredCanvasFormat h),
           CreateTexture dt width height,
           CreateBuffer ub uniformBufferSize False,
           CreateBindGroup bg rp ub,
           CreateView dt,
           RequestAnimationFrame]))"

text \<open>
  The module's top level, lines 5 to 99 and line 149: the events so far, and the error
  that ended the module or the state in which the first frame is awaited. The check of
  lines 5 to 7 has no \<^verbatim>\<open>return\<close> and no \<^verbatim>\<open>throw\<close>: line 9 is evaluated after it
  in either case, and \<^verbatim>\<open>navigator.gpu.requestAdapter()\<close> throws a TypeError when
  \<^verbatim>\<open>navigator.gpu\<close> is undefined.
\<close>

definition startup :: "deps \<Rightarrow> host \<Rightarrow> event list \<times> (js_error + state)" where
  "startup d h =
     (let log = (if \<not> navigator_gpu h
                 then [ConsoleError ''WebGPU is not supported in this browser.'']
                 else [])
      in if \<not> navigator_gpu h then (log, Inl TypeError)
         else if \<not> adapter_found h then (log, Inl TypeError)
         else case requestDevice_rejects h of
           Some e \<Rightarrow> (log, Inl e)
         | None \<Rightarrow>
         (case loadFile h of
            Inl e \<Rightarrow> (log, Inl e)
          | Inr cubeShaderFile \<Rightarrow>
            (let dev = \<lparr>next_handle = 0, textures = Map.empty, buffers = Map.empty\<rparr>;
                 (cubeShaderModule, dev) = createObject dev;
                 log = log @ [CreateShaderModule cubeShaderModule cubeShaderFile]
             in if \<not> canvas_found h then (log, Inl TypeError)
                else if \<not> context_found h then (log, Inl TypeError)
                else
                  (let log = log @ [Configure (getPreferredCanvasFormat h)]
                   in case mapping_throws h of
                        Some e \<Rightarrow> (log, Inl e)
                      | None \<Rightarrow>
                        (let (vb, dev) =
                               createBuffer (byteLength (cubeVertexArray d)) True dev;
                             log = log @ [CreateBuffer vb
                                            (byteLength (cubeVertexArray d)) True];
                             (s, evs) = build d h cubeShaderModule vb dev
                         in (log @ evs, Inr s))))))"

section \<open>The animation loop\<close>

text \<open>
  The host keeps the list of the callbacks registered with
  \<^verbatim>\<open>requestAnimationFrame\<close>; \<^verbatim>\<open>frame\<close> is the only callback the program ever
  registers, so the list is a number. At each display refresh the host empties the list
  and invokes the callbacks that were on it, one after the other; a callback registered
  meanwhile waits for the next refresh. An exception that a callback throws is reported
  and ends that callback only.
\<close>

definition requested :: "event list \<Rightarrow> nat" where
  "requested evs = length (filter (\<lambda>e. e = RequestAnimationFrame) evs)"

fun runCallbacks :: "deps \<Rightarrow> nat \<Rightarrow> frame_input \<Rightarrow> state \<times> nat \<Rightarrow> state \<times> nat" where
  "runCallbacks d 0 i w = w"
| "runCallbacks d (Suc n) i (s, pending) =
     (case frame d s i of
        Inl e \<Rightarrow> runCallbacks d n i (s, pending)
      | Inr (s', evs) \<Rightarrow> runCallbacks d n i (s', pending + requested evs))"

definition animationFrame :: "deps \<Rightarrow> state \<times> nat \<Rightarrow> frame_input \<Rightarrow> state \<times> nat" where
  "animationFrame d w i = runCallbacks d (snd w) i (fst w, 0)"

fun run :: "deps \<Rightarrow> state \<times> nat \<Rightarrow> frame_input list \<Rightarrow> state \<times> nat" where
  "run d w [] = w"
| "run d w (i # inputs) = run d (animationFrame d w i) inputs"

section \<open>Reading a frame's result and its events\<close>

text \<open>
  The state and the events that an invocation of \<^verbatim>\<open>frame\<close> leaves behind. The only
  exception of \<open>frame\<close> is thrown in line 126 when the conditional of line 115 was not
  entered, before any assignment: it leaves the state as it was.
\<close>

definition frame_state :: "deps \<Rightarrow> state \<Rightarrow> frame_input \<Rightarrow> state" where
  "frame_state d s i = (case frame d s i of Inl e \<Rightarrow> s | Inr r \<Rightarrow> fst r)"

definition frame_events :: "deps \<Rightarrow> state \<Rightarrow> frame_input \<Rightarrow> event list" where
  "frame_events d s i = (case frame d s i of Inl e \<Rightarrow> [] | Inr r \<Rightarrow> snd r)"

definition throws :: "js_error + 'a \<Rightarrow> bool" where
  "throws r = (case r of Inl e \<Rightarrow> True | Inr x \<Rightarrow> False)"

text \<open>The command buffers handed to \<^verbatim>\<open>device.queue.submit\<close>, in order.\<close>

fun submitted :: "event list \<Rightarrow> command list list" where
  "submitted [] = []"
| "submitted (Submit cbs # evs) = cbs @ submitted evs"
| "submitted (e # evs) = submitted evs"

text \<open>The vertex counts of the draw calls of a command buffer.\<close>

fun draws :: "command list \<Rightarrow> nat list" where
  "draws [] = []"
| "draws (Draw n # cs) = n # draws cs"
| "draws (c # cs) = draws cs"

text \<open>The depth-stencil attachment views of the render passes of a command buffer.\<close>

fun depthAttachments :: "command list \<Rightarrow> view list" where
  "depthAttachments [] = []"
| "depthAttachments (BeginRenderPass c v # cs) = v # depthAttachments cs"
| "depthAttachments (c # cs) = depthAttachments cs"

text \<open>Uploads to buffers and submissions, the work that the queue sees.\<close>

fun isQueueWork :: "event \<Rightarrow> bool" where
  "isQueueWork (WriteBuffer b off data doff sz) = True"
| "isQueueWork (Submit cbs) = True"
| "isQueueWork e = False"

text \<open>A call of \<^verbatim>\<open>device.queue.writeBuffer\<close>.\<close>

fun isWriteBuffer :: "event \<Rightarrow> bool" where
  "isWriteBuffer (WriteBuffer b off data doff sz) = True"
| "isWriteBuffer e = False"

text \<open>
  The view matrix of lines 102 to 105 at the clock value \<open>date_now\<close>, as
  \<open>getTransformationMatrix\<close> computes it.
\<close>

definition viewMatrixAt :: "deps \<Rightarrow> nat \<Rightarrow> Float32Array" where
  "viewMatrixAt d date_now =
     (let viewMatrix = mat4_identity;
          viewMatrix = mat4_translate d viewMatrix (vec3_fromValues 0 0 (- 4)) viewMatrix;
          now = js_quot (of_nat date_now) 1000
      in mat4_rotate d viewMatrix
           (vec3_fromValues (Math_sin d now) (Math_cos d now) 0) 1 viewMatrix)"

text \<open>An event that writes data into the buffer \<open>b\<close>.\<close>

fun writesTo :: "handle \<Rightarrow> event \<Rightarrow> bool" where
  "writesTo b (MappedSet b' data) = (b' = b)"
| "writesTo b (WriteBuffer b' off data doff sz) = (b' = b)"
| "writesTo b e = False"

text \<open>An event about the buffer \<open>b\<close>: its creation, a write, its unmapping.\<close>

fun concerns :: "handle \<Rightarrow> event \<Rightarrow> bool" where
  "concerns b (CreateBuffer b' sz m) = (b' = b)"
| "concerns b (Unmap b') = (b' = b)"
| "concerns b e = writesTo b e"

text \<open>
  The creation or the destruction of a resource: a buffer, a texture, a pipeline, a bind
  group.
\<close>

fun isLifecycle :: "event \<Rightarrow> bool" where
  "isLifecycle (CreateBuffer b sz m) = True"
| "isLifecycle (CreateRenderPipeline p sm stride pos uv fmt) = True"
| "isLifecycle (CreateTexture t w h) = True"
| "isLifecycle (DestroyTexture t) = True"
| "isLifecycle (CreateBindGroup g p b) = True"
| "isLifecycle e = False"

fun isConsoleError :: "event \<Rightarrow> bool" where
  "isConsoleError (ConsoleError m) = True"
| "isConsoleError e = False"

section \<open>The states in which a frame is invoked\<close>

text \<open>
  The host invokes \<^verbatim>\<open>frame\<close> only from \<open>runCallbacks\<close>. When the module's top level
  has ended with the events \<open>evs0\<close> in the state \<open>s0\<close>, the state before the refresh
  that follows the refreshes \<open>inputs\<close> is \<open>fst (run d (s0, requested evs0) inputs)\<close>;
  exactly one callback is pending then (\<open>run_ready\<close> below), so this is the state in which
  \<open>frame\<close> is invoked, once, at that refresh. The theorems about every invocation of
  \<open>frame\<close> are stated for these states and for every input \<open>i\<close> of the host.

  What holds of the state whenever the host invokes \<^verbatim>\<open>frame\<close>: the variable
  \<^verbatim>\<open>depthTexture\<close> holds a live texture of the size of the canvas, whose handle the
  device has given out; the uniform buffer
  is unmapped and has the size of the matrix; the vertex buffer is another buffer,
  unmapped, and holds the vertex data.
\<close>

definition depthMatches :: "state \<Rightarrow> bool" where
  "depthMatches s =
     (case depthTexture s of
        None \<Rightarrow> False
      | Some t \<Rightarrow>
          (case textures (device s) t of
             None \<Rightarrow> False
           | Some x \<Rightarrow> tex_width x = canvas_width s \<and> tex_height x = canvas_height s
                        \<and> \<not> tex_destroyed x \<and> t < next_handle (device s)))"

definition ready :: "deps \<Rightarrow> state \<Rightarrow> bool" where
  "ready d s \<longleftrightarrow>
     depthMatches s
     \<and> length (modelViewProjectionMatrix s) = 16
     \<and> verticesBuffer s \<noteq> uniformBuffer s
     \<and> (case buffers (device s) (uniformBuffer s) of
          None \<Rightarrow> False
        | Some x \<Rightarrow> buf_size x = 64 \<and> \<not> buf_mapped x \<and> length (buf_data x) = 16)
     \<and> buffers (device s) (verticesBuffer s) =
         Some \<lparr>buf_size = byteLength (cubeVertexArray d), buf_mapped = False,
               buf_data = cubeVertexArray d\<rparr>"

section \<open>Concrete hosts\<close>

text \<open>
  A triangle instead of the cube, and a matrix library whose entries are easy to read.
\<close>

definition ex_deps :: deps where
  "ex_deps =
     \<lparr>cubeVertexArray = replicate 30 (Num 1),
      cubeVertexSize = 40,
      cubeUVOffset = 32,
      cubePositionOffset = 0,
      cubeVertexCount = 3,
      Math_PI = 355 / 113,
      Math_sin = (\<lambda>x. 0),
      Math_cos = (\<lambda>x. 1),
      perspective_entry = (\<lambda>fov asp near far k. asp),
      translate_entry = (\<lambda>m v k. m ! k),
      rotate_entry = (\<lambda>m axis angle k. m ! k),
      multiply_entry = (\<lambda>a b k. a ! k)\<rparr>"

text \<open>A host with a device, and a canvas laid out at 300 by 150 on a display of ratio 1.\<close>

definition ex_host :: host where
  "ex_host =
     \<lparr>navigator_gpu = True,
      adapter_found = True,
      requestDevice_rejects = None,
      loadFile = Inr ''cube.wgsl'',
      canvas_found = True,
      context_found = True,
      canvas_clientWidth = 300,
      canvas_clientHeight = 150,
      window_devicePixelRatio = 1,
      getPreferredCanvasFormat = ''bgra8unorm'',
      mapping_throws = None\<rparr>"

definition ex_log :: "event list" where
  "ex_log =
     [CreateShaderModule 0 ''cube.wgsl'',
      Configure ''bgra8unorm'',
      CreateBuffer 1 120 True,
      MappedSet 1 (replicate 30 (Num 1)),
      Unmap 1,
      CreateRenderPipeline 2 0 40 0 32 ''bgra8unorm'',
      CreateTexture 3 300 150,
      CreateBuffer 4 64 False,
      CreateBindGroup 5 2 4,
      CreateView 3,
      RequestAnimationFrame]"

definition ex_state :: state where
  "ex_state =
     \<lparr>canvas_width = 300,
      canvas_height = 150,
      devicePixelRatio = 1,
      device =
        \<lparr>next_handle = 6,
         textures = [3 \<mapsto> \<lparr>tex_width = 300, tex_height = 150, tex_destroyed = False\<rparr>],
         buffers =
           [1 \<mapsto> \<lparr>buf_size = 120, buf_mapped = False, buf_data = replicate 30 (Num 1)\<rparr>,
            4 \<mapsto> \<lparr>buf_size = 64, buf_mapped = False, buf_data = replicate 16 (Num 0)\<rparr>]\<rparr>,
      verticesBuffer = 1,
      renderPipeline = 2,
      depthTexture = Some 3,
      uniformBuffer = 4,
      uniformBindGroup = 5,
      colorAttachment_view = None,
      depthStencilAttachment_view = TextureView 3,
      aspect = Num 2,
      projectionMatrix = store16 mat4_create (\<lambda>k. Num 2),
      modelViewProjectionMatrix = mat4_create\<rparr>"

text \<open>The same host on a display of ratio 3/2, the canvas laid out at 201 by 101.\<close>

definition ex_host_hidpi :: host where
  "ex_host_hidpi =
     ex_host\<lparr>canvas_clientWidth := 201, canvas_clientHeight := 101,
             window_devicePixelRatio := 3 / 2\<rparr>"

text \<open>A host without the graphics API.\<close>

definition ex_host_nogpu :: host where
  "ex_host_nogpu = ex_host\<lparr>navigator_gpu := False\<rparr>"

text \<open>Frames: the layout unchanged, the layout doubled, the canvas hidden.\<close>

definition ex_same :: frame_input where
  "ex_same = \<lparr>clientWidth = 300, clientHeight = 150, Date_now = 1000\<rparr>"

definition ex_doubled :: frame_input where
  "ex_doubled = \<lparr>clientWidth = 600, clientHeight = 300, Date_now = 2000\<rparr>"

definition ex_hidden :: frame_input where
  "ex_hidden = \<lparr>clientWidth = 0, clientHeight = 0, Date_now = 3000\<rparr>"

text \<open>What the module reaches on the display of ratio 3/2: a canvas of 301 by 151.\<close>

definition ex_log_hidpi :: "event list" where
  "ex_log_hidpi =
     [CreateShaderModule 0 ''cube.wgsl'',
      Configure ''bgra8unorm'',
      CreateBuffer 1 120 True,
      MappedSet 1 (replicate 30 (Num 1)),
      Unmap 1,
      CreateRenderPipeline 2 0 40 0 32 ''bgra8unorm'',
      CreateTexture 3 301 151,
      CreateBuffer 4 64 False,
      CreateBindGroup 5 2 4,
      CreateView 3,
      RequestAnimationFrame]"

definition ex_state_hidpi :: state where
  "ex_state_hidpi =
     ex_state\<lparr>canvas_width := 301, canvas_height := 151, devicePixelRatio := 3 / 2,
       device := (device ex_state)\<lparr>textures :=
         [3 \<mapsto> \<lparr>tex_width = 301, tex_height = 151, tex_destroyed = False\<rparr>]\<rparr>,
       aspect := js_div 301 151,
       projectionMatrix := store16 mat4_create (\<lambda>k. js_div 301 151)\<rparr>"

text \<open>Hosts on which one step of the module's top level fails.\<close>

definition ex_host_noadapter :: host where
  "ex_host_noadapter = ex_host\<lparr>adapter_found := False\<rparr>"

definition ex_host_nodevice :: host where
  "ex_host_nodevice = ex_host\<lparr>requestDevice_rejects := Some OperationError\<rparr>"

definition ex_host_noshader :: host where
  "ex_host_noshader = ex_host\<lparr>loadFile := Inl LoadError\<rparr>"

definition ex_host_nocanvas :: host where
  "ex_host_nocanvas = ex_host\<lparr>canvas_found := False\<rparr>"

definition ex_host_nocontext :: host where
  "ex_host_nocontext = ex_host\<lparr>context_found := False\<rparr>"

definition ex_host_nomapping :: host where
  "ex_host_nomapping = ex_host\<lparr>mapping_throws := Some RangeError\<rparr>"

definition ex_odd :: frame_input where
  "ex_odd = \<lparr>clientWidth = 201, clientHeight = 101, Date_now = 1000\<rparr>"

text \<open>
  The same host on a display of ratio 1/2 (a page zoomed out), the canvas laid out at 300
  by 150: the module reaches a canvas of 150 by 75. Then the canvas is laid out at 1 by 1.
\<close>

definition ex_host_half :: host where
  "ex_host_half = ex_host\<lparr>window_devicePixelRatio := 1 / 2\<rparr>"

definition ex_log_half :: "event list" where
  "ex_log_half =
     [CreateShaderModule 0 ''cube.wgsl'',
      Configure ''bgra8unorm'',
      CreateBuffer 1 120 True,
      MappedSet 1 (replicate 30 (Num 1)),
      Unmap 1,
      CreateRenderPipeline 2 0 40 0 32 ''bgra8unorm'',
      CreateTexture 3 150 75,
      CreateBuffer 4 64 False,
      CreateBindGroup 5 2 4,
      CreateView 3,
      RequestAnimationFrame]"

definition ex_state_half :: state where
  "ex_state_half =
     ex_state\<lparr>canvas_width := 150, canvas_height := 75, devicePixelRatio := 1 / 2,
       device := (device ex_state)\<lparr>textures :=
         [3 \<mapsto> \<lparr>tex_width = 150, tex_height = 75, tex_destroyed = False\<rparr>]\<rparr>\<rparr>"

definition ex_tiny :: frame_input where
  "ex_tiny = \<lparr>clientWidth = 1, clientHeight = 1, Date_now = 1000\<rparr>"

text \<open>The first host with the canvas not laid out when the module starts.\<close>

definition ex_host_hidden :: host where
  "ex_host_hidden = ex_host\<lparr>canvas_clientWidth := 0, canvas_clientHeight := 0\<rparr>"

section \<open>Auxiliary facts\<close>

lemma floor_rat_numeral:
  "\<lfloor>(numeral a :: rat) / numeral b\<rfloor> = numeral a div numeral b"
  using floor_divide_of_int_eq [of "numeral a" "numeral b", where ?'a = rat] by simp

lemma ceiling_rat_numeral:
  "\<lceil>(numeral a :: rat) / numeral b\<rceil> = - ((- numeral a) div numeral b)"
  using ceiling_divide_eq_div [of "numeral a" "numeral b", where ?'a = rat] by simp

lemma bitLength_0: "bitLength 0 = 0"
  by (simp add: bitLength.simps)

lemma bitLength_1: "bitLength (Suc 0) = 1"
  by (simp add: bitLength.simps [of "Suc 0"] bitLength_0)

lemma bitLength_numeral: "bitLength (numeral k) = Suc (bitLength (numeral k div 2))"
  by (subst bitLength.simps) simp

lemmas toDouble_eval = js_times_def js_quot_def toDouble_def exponent_def pow2_def
  roundHalfEven_def Let_def floor_rat_numeral ceiling_rat_numeral
  bitLength_0 bitLength_1 bitLength_numeral

text \<open>
  The rounding at a ratio that is not a binary fraction: \<^verbatim>\<open>100 * 1.1\<close> is not 110, and
  \<^verbatim>\<open>10 * 1.1\<close> is 11.
\<close>

lemma toDouble_ratio_11_10: "toDouble (11 / 10) = 2476979795053773 / 2251799813685248"
  by (simp add: toDouble_eval)

lemma js_times_100_ratio: "js_times 100 (toDouble (11 / 10)) = 7740561859543041 / 70368744177664"
  by (simp add: toDouble_eval)

lemma js_times_10_ratio: "js_times 10 (toDouble (11 / 10)) = 11"
  by (simp add: toDouble_eval)

text \<open>The Numbers of the concrete hosts below: binary fractions, which no operation rounds.\<close>

lemma ex_numbers:
  "toDouble 1 = 1"
  "toDouble (1 / 2) = 1 / 2"
  "toDouble (3 / 2) = 3 / 2"
  "js_times 0 1 = 0"
  "js_times 300 1 = 300"
  "js_times 150 1 = 150"
  "js_times 600 1 = 600"
  "js_times 201 (3 / 2) = 603 / 2"
  "js_times 101 (3 / 2) = 303 / 2"
  "js_times 300 (1 / 2) = 150"
  "js_times 150 (1 / 2) = 75"
  "js_times 1 (1 / 2) = 1 / 2"
  "js_quot 300 150 = 2"
  "js_quot 150 75 = 2"
  by (simp_all add: toDouble_eval)

lemma length_store16 [simp]: "length (store16 dst f) = length dst"
  by (simp add: store16_def)

lemma length_mat4_multiply [simp]: "length (mat4_multiply d a b dst) = length dst"
  by (simp add: mat4_multiply_def)

lemma length_mat4_create [simp]: "length mat4_create = 16"
  by (simp add: mat4_create_def)

lemma getTransformationMatrix_simps [simp]:
  "canvas_width (getTransformationMatrix d n s) = canvas_width s"
  "canvas_height (getTransformationMatrix d n s) = canvas_height s"
  "devicePixelRatio (getTransformationMatrix d n s) = devicePixelRatio s"
  "device (getTransformationMatrix d n s) = device s"
  "verticesBuffer (getTransformationMatrix d n s) = verticesBuffer s"
  "renderPipeline (getTransformationMatrix d n s) = renderPipeline s"
  "depthTexture (getTransformationMatrix d n s) = depthTexture s"
  "uniformBuffer (getTransformationMatrix d n s) = uniformBuffer s"
  "uniformBindGroup (getTransformationMatrix d n s) = uniformBindGroup s"
  "colorAttachment_view (getTransformationMatrix d n s) = colorAttachment_view s"
  "depthStencilAttachment_view (getTransformationMatrix d n s) = depthStencilAttachment_view s"
  "aspect (getTransformationMatrix d n s) = aspect s"
  "projectionMatrix (getTransformationMatrix d n s) = projectionMatrix s"
  "length (modelViewProjectionMatrix (getTransformationMatrix d n s)) =
     length (modelViewProjectionMatrix s)"
  by (simp_all add: getTransformationMatrix_def Let_def)

lemma getTransformationMatrix_view [simp]:
  "getTransformationMatrix d n (s\<lparr>depthStencilAttachment_view := v\<rparr>) =
     (getTransformationMatrix d n s)\<lparr>depthStencilAttachment_view := v\<rparr>"
  by (simp add: getTransformationMatrix_def Let_def)

lemma writeBuffer_simps [simp]:
  "next_handle (writeBuffer b off m doff sz dev) = next_handle dev"
  "textures (writeBuffer b off m doff sz dev) = textures dev"
  "b' \<noteq> b \<Longrightarrow> buffers (writeBuffer b off m doff sz dev) b' = buffers dev b'"
  by (simp_all add: writeBuffer_def split: option.splits)

lemma writeBuffer_whole:
  "buffers dev b = Some x \<Longrightarrow> buf_size x = 64 \<Longrightarrow> \<not> buf_mapped x \<Longrightarrow>
   length (buf_data x) = 16 \<Longrightarrow> length m = 16 \<Longrightarrow>
   buffers (writeBuffer b 0 m (byteOffset m) (byteLength m) dev) b = Some (x\<lparr>buf_data := m\<rparr>)"
  by (simp add: writeBuffer_def byteOffset_def byteLength_def)

lemma render_events:
  "snd (render d t s i) =
     [CreateView t,
      WriteBuffer (uniformBuffer s) 0
        (modelViewProjectionMatrix (getTransformationMatrix d (Date_now i) s))
        (byteOffset (modelViewProjectionMatrix (getTransformationMatrix d (Date_now i) s)))
        (byteLength (modelViewProjectionMatrix (getTransformationMatrix d (Date_now i) s))),
      Submit [[BeginRenderPass (Some CanvasTextureView) (TextureView t),
               SetPipeline (renderPipeline s),
               SetBindGroup 0 (uniformBindGroup s),
               SetVertexBuffer 0 (verticesBuffer s),
               Draw (cubeVertexCount d),
               EndPass]],
      RequestAnimationFrame]"
  by (simp add: render_def Let_def)

lemma render_state:
  "fst (render d t s i) =
     (getTransformationMatrix d (Date_now i) s)
       \<lparr>device := writeBuffer (uniformBuffer s) 0
           (modelViewProjectionMatrix (getTransformationMatrix d (Date_now i) s))
           (byteOffset (modelViewProjectionMatrix (getTransformationMatrix d (Date_now i) s)))
           (byteLength (modelViewProjectionMatrix (getTransformationMatrix d (Date_now i) s)))
           (device s),
        colorAttachment_view := Some CanvasTextureView,
        depthStencilAttachment_view := TextureView t\<rparr>"
  by (simp add: render_def Let_def getTransformationMatrix_def)

lemma resize_events:
  "snd (resize cw ch s) =
     (case depthTexture s of None \<Rightarrow> [] | Some t \<Rightarrow> [DestroyTexture t])
     @ [CreateTexture (next_handle (device s)) (canvas_dimension 300 cw) (canvas_dimension 150 ch)]"
  by (simp add: resize_def Let_def createTexture_def destroy_def split: option.splits prod.splits)

lemma resize_simps [simp]:
  "canvas_width (fst (resize cw ch s)) = canvas_dimension 300 cw"
  "canvas_height (fst (resize cw ch s)) = canvas_dimension 150 ch"
  "devicePixelRatio (fst (resize cw ch s)) = devicePixelRatio s"
  "verticesBuffer (fst (resize cw ch s)) = verticesBuffer s"
  "renderPipeline (fst (resize cw ch s)) = renderPipeline s"
  "depthTexture (fst (resize cw ch s)) = Some (next_handle (device s))"
  "uniformBuffer (fst (resize cw ch s)) = uniformBuffer s"
  "uniformBindGroup (fst (resize cw ch s)) = uniformBindGroup s"
  "aspect (fst (resize cw ch s)) = js_div (canvas_dimension 300 cw) (canvas_dimension 150 ch)"
  "projectionMatrix (fst (resize cw ch s)) = projectionMatrix s"
  "modelViewProjectionMatrix (fst (resize cw ch s)) = modelViewProjectionMatrix s"
  "buffers (device (fst (resize cw ch s))) = buffers (device s)"
  "next_handle (device (fst (resize cw ch s))) = next_handle (device s) + 1"
  "textures (device (fst (resize cw ch s))) (next_handle (device s)) =
     Some \<lparr>tex_width = canvas_dimension 300 cw, tex_height = canvas_dimension 150 ch,
           tex_destroyed = False\<rparr>"
  by (simp_all add: resize_def Let_def createTexture_def destroy_def
      split: option.splits prod.splits)

lemma frame_resize:
  "needsResize s i \<Longrightarrow>
   frame d s i =
     Inr (fst (render d (next_handle (device s))
                (fst (resize (currentWidth s i) (currentHeight s i) s)) i),
          snd (resize (currentWidth s i) (currentHeight s i) s)
          @ snd (render d (next_handle (device s))
                  (fst (resize (currentWidth s i) (currentHeight s i) s)) i))"
  by (simp add: frame_def split_def Let_def)

lemma frame_keep:
  "\<not> needsResize s i \<Longrightarrow> depthTexture s = Some t \<Longrightarrow>
   frame d s i = Inr (fst (render d t s i), snd (render d t s i))"
  by (simp add: frame_def split_def Let_def)


lemma frame_state_resize:
  "needsResize s i \<Longrightarrow>
   frame_state d s i =
     fst (render d (next_handle (device s))
           (fst (resize (currentWidth s i) (currentHeight s i) s)) i)"
  by (simp add: frame_state_def frame_resize)

lemma frame_events_resize:
  "needsResize s i \<Longrightarrow>
   frame_events d s i =
     snd (resize (currentWidth s i) (currentHeight s i) s)
     @ snd (render d (next_handle (device s))
             (fst (resize (currentWidth s i) (currentHeight s i) s)) i)"
  by (simp add: frame_events_def frame_resize)

lemma frame_state_keep:
  "\<not> needsResize s i \<Longrightarrow> depthTexture s = Some t \<Longrightarrow>
   frame_state d s i = fst (render d t s i)"
  by (simp add: frame_state_def frame_keep)

lemma frame_events_keep:
  "\<not> needsResize s i \<Longrightarrow> depthTexture s = Some t \<Longrightarrow>
   frame_events d s i = snd (render d t s i)"
  by (simp add: frame_events_def frame_keep)

lemma ready_depth:
  "ready d s \<Longrightarrow>
   \<exists>t x. depthTexture s = Some t \<and> textures (device s) t = Some x
     \<and> tex_width x = canvas_width s \<and> tex_height x = canvas_height s \<and> \<not> tex_destroyed x
     \<and> t < next_handle (device s)"
  by (auto simp: ready_def depthMatches_def split: option.splits)

lemma ready_uniform:
  "ready d s \<Longrightarrow>
   \<exists>x. buffers (device s) (uniformBuffer s) = Some x \<and> buf_size x = 64 \<and> \<not> buf_mapped x
     \<and> length (buf_data x) = 16"
  by (auto simp: ready_def split: option.splits)

lemma ready_render:
  assumes "ready d s" and "depthTexture s = Some t"
  shows "ready d (fst (render d t s i))"
proof -
  obtain x where x: "buffers (device s) (uniformBuffer s) = Some x" "buf_size x = 64"
      "\<not> buf_mapped x" "length (buf_data x) = 16"
    using ready_uniform [OF assms(1)] by blast
  have len: "length (modelViewProjectionMatrix (getTransformationMatrix d (Date_now i) s)) = 16"
    using assms(1) by (simp add: ready_def)
  have neq: "verticesBuffer s \<noteq> uniformBuffer s"
    using assms(1) by (simp add: ready_def)
  show ?thesis
    using assms neq len x writeBuffer_whole [OF x len]
    by (simp add: render_state ready_def depthMatches_def split: option.splits)
qed

lemma ready_resize:
  assumes "ready d s"
  shows "ready d (fst (resize cw ch s))"
  using assms by (simp add: ready_def depthMatches_def)

lemma frame_not_throws:
  "ready d s \<Longrightarrow> \<not> throws (frame d s i)"
  using ready_depth [of d s]
  by (cases "needsResize s i") (auto simp: throws_def frame_resize frame_keep)

lemma ready_frame_state:
  assumes "ready d s"
  shows "ready d (frame_state d s i)"
proof (cases "needsResize s i")
  case True
  then show ?thesis
    using ready_render [OF ready_resize [OF assms]] by (simp add: frame_state_resize)
next
  case False
  then show ?thesis
    using ready_depth [OF assms] ready_render [OF assms] by (auto simp: frame_state_keep)
qed

lemma requested_render [simp]: "requested (snd (render d t s i)) = 1"
  by (simp add: render_events requested_def)

lemma requested_resize [simp]: "requested (snd (resize cw ch s)) = 0"
  by (simp add: resize_events requested_def split: option.splits)

lemma requested_append [simp]: "requested (xs @ ys) = requested xs + requested ys"
  by (simp add: requested_def)

lemma requested_frame_events:
  "ready d s \<Longrightarrow> requested (frame_events d s i) = 1"
  using ready_depth [of d s]
  by (cases "needsResize s i") (auto simp: frame_events_resize frame_events_keep)

lemma frame_Inr:
  "ready d s \<Longrightarrow> frame d s i = Inr (frame_state d s i, frame_events d s i)"
  using frame_not_throws [of d s i]
  by (simp add: throws_def frame_state_def frame_events_def split: sum.splits)

lemma animationFrame_ready:
  assumes "ready d s"
  shows "animationFrame d (s, Suc 0) i = (frame_state d s i, Suc 0)"
  using frame_Inr [OF assms, of i] requested_frame_events [OF assms, of i]
  by (simp add: animationFrame_def)

lemma run_ready:
  "ready d s \<Longrightarrow> ready d (fst (run d (s, 1) inputs)) \<and> snd (run d (s, 1) inputs) = 1"
proof (induction inputs arbitrary: s)
  case Nil
  then show ?case by simp
next
  case (Cons i inputs)
  then show ?case
    using ready_frame_state [of d s i] by (simp add: animationFrame_ready)
qed

lemma startup_ready:
  assumes "startup d h = (evs0, Inr s0)"
  shows "ready d s0"
  using assms
  by (auto simp: startup_def build_def Let_def createObject_def createBuffer_def
      createTexture_def setMapped_def unmap_def byteLength_def ready_def depthMatches_def
      split: if_splits option.splits sum.splits)

lemma startup_requested:
  assumes "startup d h = (evs0, Inr s0)"
  shows "requested evs0 = 1"
  using assms
  by (auto simp: startup_def build_def Let_def createObject_def createBuffer_def
      createTexture_def requested_def
      split: if_splits option.splits sum.splits)


lemma ex_startup: "startup ex_deps ex_host = (ex_log, Inr ex_state)"
  by (simp add: startup_def ex_host_def ex_log_def ex_state_def build_def Let_def
      createObject_def createBuffer_def createTexture_def setMapped_def unmap_def byteLength_def
      canvas_dimension_def ToUnsignedLong_def js_div_def ex_deps_def mat4_perspective_def
      ex_numbers floor_rat_numeral del: One_nat_def)

lemma reachable_ready:
  assumes "startup d h = (evs0, Inr s0)"
    and "s = fst (run d (s0, requested evs0) inputs)"
  shows "ready d s"
  using run_ready [OF startup_ready [OF assms(1)], of inputs] assms(2)
  by (simp add: startup_requested [OF assms(1)])

lemma submitted_append [simp]: "submitted (xs @ ys) = submitted xs @ submitted ys"
  by (induction xs rule: submitted.induct) simp_all

lemma submitted_resize [simp]: "submitted (snd (resize cw ch s)) = []"
  by (simp add: resize_events split: option.splits)

lemma render_simps [simp]:
  "canvas_width (fst (render d t s i)) = canvas_width s"
  "canvas_height (fst (render d t s i)) = canvas_height s"
  "devicePixelRatio (fst (render d t s i)) = devicePixelRatio s"
  "verticesBuffer (fst (render d t s i)) = verticesBuffer s"
  "renderPipeline (fst (render d t s i)) = renderPipeline s"
  "depthTexture (fst (render d t s i)) = depthTexture s"
  "uniformBuffer (fst (render d t s i)) = uniformBuffer s"
  "uniformBindGroup (fst (render d t s i)) = uniformBindGroup s"
  "aspect (fst (render d t s i)) = aspect s"
  "projectionMatrix (fst (render d t s i)) = projectionMatrix s"
  "depthStencilAttachment_view (fst (render d t s i)) = TextureView t"
  "textures (device (fst (render d t s i))) = textures (device s)"
  "next_handle (device (fst (render d t s i))) = next_handle (device s)"
  "modelViewProjectionMatrix (fst (render d t s i)) =
     modelViewProjectionMatrix (getTransformationMatrix d (Date_now i) s)"
  by (simp_all add: render_state)

lemma ex_startup_hidpi: "startup ex_deps ex_host_hidpi = (ex_log_hidpi, Inr ex_state_hidpi)"
  by (simp add: startup_def ex_host_hidpi_def ex_host_def ex_log_hidpi_def ex_state_hidpi_def
      ex_state_def build_def Let_def
      createObject_def createBuffer_def createTexture_def setMapped_def unmap_def byteLength_def
      canvas_dimension_def ToUnsignedLong_def js_div_def ex_deps_def mat4_perspective_def
      ex_numbers floor_rat_numeral del: One_nat_def)

lemma getTransformationMatrix_resize [simp]:
  "modelViewProjectionMatrix (getTransformationMatrix d n (fst (resize cw ch s))) =
     modelViewProjectionMatrix (getTransformationMatrix d n s)"
  by (simp add: getTransformationMatrix_def Let_def)

lemma frame_state_const:
  assumes "ready d s"
  shows "verticesBuffer (frame_state d s i) = verticesBuffer s
    \<and> renderPipeline (frame_state d s i) = renderPipeline s
    \<and> uniformBuffer (frame_state d s i) = uniformBuffer s
    \<and> uniformBindGroup (frame_state d s i) = uniformBindGroup s
    \<and> projectionMatrix (frame_state d s i) = projectionMatrix s
    \<and> devicePixelRatio (frame_state d s i) = devicePixelRatio s
    \<and> modelViewProjectionMatrix (frame_state d s i) =
        modelViewProjectionMatrix (getTransformationMatrix d (Date_now i) s)"
  using ready_depth [OF assms]
  by (cases "needsResize s i") (auto simp: frame_state_resize frame_state_keep)

lemma run_const:
  "ready d s \<Longrightarrow>
   verticesBuffer (fst (run d (s, 1) inputs)) = verticesBuffer s
   \<and> renderPipeline (fst (run d (s, 1) inputs)) = renderPipeline s
   \<and> uniformBuffer (fst (run d (s, 1) inputs)) = uniformBuffer s
   \<and> uniformBindGroup (fst (run d (s, 1) inputs)) = uniformBindGroup s
   \<and> projectionMatrix (fst (run d (s, 1) inputs)) = projectionMatrix s
   \<and> devicePixelRatio (fst (run d (s, 1) inputs)) = devicePixelRatio s"
proof (induction inputs arbitrary: s)
  case Nil
  then show ?case by simp
next
  case (Cons i inputs)
  then show ?case
    using ready_frame_state [of d s i] frame_state_const [of d s i]
    by (simp add: animationFrame_ready)
qed

lemma reachable_const:
  assumes "startup d h = (evs0, Inr s0)"
    and "s = fst (run d (s0, requested evs0) inputs)"
  shows "verticesBuffer s = verticesBuffer s0 \<and> renderPipeline s = renderPipeline s0
    \<and> uniformBuffer s = uniformBuffer s0 \<and> uniformBindGroup s = uniformBindGroup s0
    \<and> projectionMatrix s = projectionMatrix s0 \<and> devicePixelRatio s = devicePixelRatio s0"
  using run_const [OF startup_ready [OF assms(1)], of inputs] assms(2)
  by (simp add: startup_requested [OF assms(1)])

lemma startup_success:
  assumes "startup d h = (evs0, Inr s0)"
  shows "\<exists>code. loadFile h = Inr code
    \<and> evs0 = [CreateShaderModule 0 code,
              Configure (getPreferredCanvasFormat h),
              CreateBuffer 1 (byteLength (cubeVertexArray d)) True,
              MappedSet 1 (cubeVertexArray d),
              Unmap 1,
              CreateRenderPipeline 2 0 (cubeVertexSize d) (cubePositionOffset d)
                (cubeUVOffset d) (getPreferredCanvasFormat h),
              CreateTexture 3 (canvas_width s0) (canvas_height s0),
              CreateBuffer 4 (4 * 16) False,
              CreateBindGroup 5 2 4,
              CreateView 3,
              RequestAnimationFrame]
    \<and> verticesBuffer s0 = 1 \<and> renderPipeline s0 = 2 \<and> depthTexture s0 = Some 3
    \<and> uniformBuffer s0 = 4 \<and> uniformBindGroup s0 = 5
    \<and> canvas_width s0 =
        canvas_dimension 300
          (js_times (of_nat (canvas_clientWidth h)) (toDouble (window_devicePixelRatio h)))
    \<and> canvas_height s0 =
        canvas_dimension 150
          (js_times (of_nat (canvas_clientHeight h)) (toDouble (window_devicePixelRatio h)))
    \<and> devicePixelRatio s0 = toDouble (window_devicePixelRatio h)
    \<and> aspect s0 = js_div (canvas_width s0) (canvas_height s0)
    \<and> projectionMatrix s0 =
        mat4_perspective d (js_quot (js_times 2 (Math_PI d)) 5)
        (js_div (canvas_width s0) (canvas_height s0)) 1 100"
  using assms
  by (auto simp: startup_def build_def Let_def createObject_def createBuffer_def
      createTexture_def setMapped_def unmap_def byteLength_def simp del: One_nat_def
      split: if_splits option.splits sum.splits)

lemma filter_queue_resize [simp]: "filter isQueueWork (snd (resize cw ch s)) = []"
  by (simp add: resize_events split: option.splits)

lemma frame_events_queue:
  assumes "ready d s"
  shows "\<exists>t. depthTexture (frame_state d s i) = Some t \<and>
    filter isQueueWork (frame_events d s i) =
      [WriteBuffer (uniformBuffer s) 0
         (modelViewProjectionMatrix (getTransformationMatrix d (Date_now i) s))
         (byteOffset (modelViewProjectionMatrix (getTransformationMatrix d (Date_now i) s)))
         (byteLength (modelViewProjectionMatrix (getTransformationMatrix d (Date_now i) s))),
       Submit [[BeginRenderPass (Some CanvasTextureView) (TextureView t),
                SetPipeline (renderPipeline s),
                SetBindGroup 0 (uniformBindGroup s),
                SetVertexBuffer 0 (verticesBuffer s),
                Draw (cubeVertexCount d),
                EndPass]]]"
  using ready_depth [OF assms]
  by (cases "needsResize s i")
    (auto simp: frame_state_resize frame_state_keep frame_events_resize frame_events_keep
      render_events)

lemma frame_uniform_after:
  assumes "ready d s"
  shows "buffers (device (frame_state d s i)) (uniformBuffer s) =
     Some \<lparr>buf_size = 64, buf_mapped = False,
           buf_data = modelViewProjectionMatrix (getTransformationMatrix d (Date_now i) s)\<rparr>"
proof -
  obtain x where x: "buffers (device s) (uniformBuffer s) = Some x" "buf_size x = 64"
      "\<not> buf_mapped x" "length (buf_data x) = 16"
    using ready_uniform [OF assms] by blast
  have len: "length (modelViewProjectionMatrix (getTransformationMatrix d (Date_now i) s)) = 16"
    using assms by (simp add: ready_def)
  obtain t where t: "depthTexture s = Some t"
    using ready_depth [OF assms] by blast
  have x': "buffers (device (fst (resize cw ch s))) (uniformBuffer s) = Some x" for cw ch
    using x(1) by simp
  show ?thesis
  proof (cases "needsResize s i")
    case True
    then show ?thesis
      using writeBuffer_whole [OF x' x(2,3,4) len] x
      by (simp add: frame_state_resize render_state)
  next
    case False
    then show ?thesis
      using writeBuffer_whole [OF x len] x t
      by (simp add: frame_state_keep render_state)
  qed
qed

lemma ex_run0: "ex_state = fst (run ex_deps (ex_state, requested ex_log) [])"
  by simp

lemma getTransformationMatrix_view_eq:
  "modelViewProjectionMatrix (getTransformationMatrix d n s) =
     mat4_multiply d (projectionMatrix s) (viewMatrixAt d n) (modelViewProjectionMatrix s)"
  by (simp add: getTransformationMatrix_def viewMatrixAt_def Let_def)

lemma filter_write_resize [simp]: "filter isWriteBuffer (snd (resize cw ch s)) = []"
  by (simp add: resize_events split: option.splits)

lemma frame_events_writes:
  assumes "ready d s"
  shows "filter isWriteBuffer (frame_events d s i) =
      [WriteBuffer (uniformBuffer s) 0
         (modelViewProjectionMatrix (getTransformationMatrix d (Date_now i) s))
         (byteOffset (modelViewProjectionMatrix (getTransformationMatrix d (Date_now i) s)))
         (byteLength (modelViewProjectionMatrix (getTransformationMatrix d (Date_now i) s)))]"
  using ready_depth [OF assms]
  by (cases "needsResize s i")
    (auto simp: frame_events_resize frame_events_keep render_events)

lemma destroy_simps [simp]:
  "next_handle (destroy t dev) = next_handle dev"
  "buffers (destroy t dev) = buffers dev"
  "textures dev t = Some x \<Longrightarrow>
     textures (destroy t dev) = (textures dev)(t \<mapsto> x\<lparr>tex_destroyed := True\<rparr>)"
  by (simp_all add: destroy_def split: option.splits)


lemma filter_lifecycle_render [simp]: "filter isLifecycle (snd (render d t s i)) = []"
  by (simp add: render_events)

lemma canvas_dimension_nat:
  "n \<le> 2147483647 \<Longrightarrow> canvas_dimension dflt (of_nat n) = n"
  by (simp add: canvas_dimension_def ToUnsignedLong_def Let_def)


lemma ex_run0_hidpi:
  "ex_state_hidpi = fst (run ex_deps (ex_state_hidpi, requested ex_log_hidpi) [])"
  by simp

lemma needsResize_zero:
  "currentWidth s i = 0 \<or> currentHeight s i = 0 \<Longrightarrow> \<not> needsResize s i"
  by (auto simp: needsResize_def)

lemma frame_depth_attachment_keep:
  assumes "ready d s" and "\<not> needsResize s i"
  shows "\<exists>t. depthTexture s = Some t
    \<and> map depthAttachments (submitted (frame_events d s i)) = [[TextureView t]]"
  using ready_depth [OF assms(1)] assms(2)
  by (auto simp: frame_events_keep render_events)

lemma last_frame_events:
  assumes "ready d s"
  shows "last (frame_events d s i) = RequestAnimationFrame"
  using ready_depth [OF assms]
  by (cases "needsResize s i")
    (auto simp: frame_events_resize frame_events_keep render_events)

lemma filter_writesTo_resize [simp]: "filter (writesTo b) (snd (resize cw ch s)) = []"
  by (simp add: resize_events split: option.splits)

lemma frame_no_vertex_write:
  assumes "ready d s"
  shows "filter (writesTo (verticesBuffer s)) (frame_events d s i) = []"
proof -
  have neq: "uniformBuffer s \<noteq> verticesBuffer s"
    using assms by (auto simp: ready_def)
  show ?thesis
    using ready_depth [OF assms] neq
    by (cases "needsResize s i")
      (auto simp: frame_events_resize frame_events_keep render_events)
qed

lemma ready_vertices:
  "ready d s \<Longrightarrow>
   buffers (device s) (verticesBuffer s) =
     Some \<lparr>buf_size = byteLength (cubeVertexArray d), buf_mapped = False,
           buf_data = cubeVertexArray d\<rparr>"
  by (simp add: ready_def)

lemma startup_defs_ok:
  "navigator_gpu h \<Longrightarrow> adapter_found h \<Longrightarrow> requestDevice_rejects h = None \<Longrightarrow>
   loadFile h = Inr code \<Longrightarrow> canvas_found h \<Longrightarrow> context_found h \<Longrightarrow>
   mapping_throws h = None \<Longrightarrow> \<not> throws (snd (startup d h))"
  by (simp add: startup_def throws_def Let_def split_def)

lemma ex_startup_half: "startup ex_deps ex_host_half = (ex_log_half, Inr ex_state_half)"
  by (simp add: startup_def ex_host_half_def ex_host_def ex_log_half_def ex_state_half_def
      ex_state_def build_def Let_def
      createObject_def createBuffer_def createTexture_def setMapped_def unmap_def byteLength_def
      canvas_dimension_def ToUnsignedLong_def js_div_def ex_deps_def mat4_perspective_def
      ex_numbers floor_rat_numeral del: One_nat_def)

lemma ex_run0_half:
  "ex_state_half = fst (run ex_deps (ex_state_half, requested ex_log_half) [])"
  by simp

lemma ex_startup_hidden:
  "CreateTexture 3 0 0 \<in> set (fst (startup ex_deps ex_host_hidden))"
  by (simp add: startup_def ex_host_hidden_def ex_host_def build_def Let_def
      createObject_def createBuffer_def createTexture_def setMapped_def unmap_def byteLength_def
      canvas_dimension_def ToUnsignedLong_def ex_deps_def
      ex_numbers del: One_nat_def)

section \<open>The depth texture and the canvas\<close>

text \<open>
  C1. Whenever the host invokes \<^verbatim>\<open>frame\<close> (in the state \<open>s\<close> reached from the module's
  top level after any number of display refreshes, with any layout size and clock), the
  invocation does not throw, and when its render pass is encoded the depth-stencil
  attachment is the view, created in this invocation, of the texture that the variable
  \<^verbatim>\<open>depthTexture\<close> holds; that texture is not destroyed and its dimensions are
  \<^verbatim>\<open>[canvas.width, canvas.height]\<close>.
\<close>

theorem depth_texture_matches_canvas:
  assumes "startup d h = (evs0, Inr s0)"
    and "s = fst (run d (s0, requested evs0) inputs)"
  shows "\<not> throws (frame d s i) \<and>
    (\<exists>t x. depthTexture (frame_state d s i) = Some t
       \<and> CreateView t \<in> set (frame_events d s i)
       \<and> map depthAttachments (submitted (frame_events d s i)) = [[TextureView t]]
       \<and> textures (device (frame_state d s i)) t = Some x
       \<and> tex_width x = canvas_width (frame_state d s i)
       \<and> tex_height x = canvas_height (frame_state d s i)
       \<and> \<not> tex_destroyed x)"
proof -
  have r: "ready d s"
    using assms by (rule reachable_ready)
  obtain t x where tx: "depthTexture (frame_state d s i) = Some t"
      "textures (device (frame_state d s i)) t = Some x"
      "tex_width x = canvas_width (frame_state d s i)"
      "tex_height x = canvas_height (frame_state d s i)" "\<not> tex_destroyed x"
    using ready_depth [OF ready_frame_state [OF r, of i]] by blast
  have ev: "CreateView t \<in> set (frame_events d s i)
      \<and> map depthAttachments (submitted (frame_events d s i)) = [[TextureView t]]"
  proof (cases "needsResize s i")
    case True
    then show ?thesis
      using tx(1) by (simp add: frame_state_resize frame_events_resize render_events)
  next
    case False
    obtain t' where t': "depthTexture s = Some t'"
      using ready_depth [OF r] by blast
    show ?thesis
      using tx(1) False t' by (simp add: frame_state_keep frame_events_keep render_events)
  qed
  show ?thesis
    using frame_not_throws [OF r, of i] tx ev by auto
qed

theorem depth_texture_matches_canvas_witness:
  "startup ex_deps ex_host = (ex_log, Inr ex_state) \<and>
   \<not> throws (frame ex_deps (fst (run ex_deps (ex_state, requested ex_log) [ex_doubled])) ex_hidden) \<and>
   (\<exists>t x. depthTexture (frame_state ex_deps
               (fst (run ex_deps (ex_state, requested ex_log) [ex_doubled])) ex_hidden) = Some t
       \<and> CreateView t \<in> set (frame_events ex_deps
               (fst (run ex_deps (ex_state, requested ex_log) [ex_doubled])) ex_hidden)
       \<and> map depthAttachments (submitted (frame_events ex_deps
               (fst (run ex_deps (ex_state, requested ex_log) [ex_doubled])) ex_hidden))
           = [[TextureView t]]
       \<and> textures (device (frame_state ex_deps
               (fst (run ex_deps (ex_state, requested ex_log) [ex_doubled])) ex_hidden)) t = Some x
       \<and> tex_width x = canvas_width (frame_state ex_deps
               (fst (run ex_deps (ex_state, requested ex_log) [ex_doubled])) ex_hidden)
       \<and> tex_height x = canvas_height (frame_state ex_deps
               (fst (run ex_deps (ex_state, requested ex_log) [ex_doubled])) ex_hidden)
       \<and> \<not> tex_destroyed x)"
  using ex_startup depth_texture_matches_canvas [OF ex_startup refl, of "[ex_doubled]" ex_hidden]
  by (rule conjI)

section \<open>The projection matrix\<close>

text \<open>
  C9. The projection matrix is computed at the module's top level from the aspect ratio
  of the canvas at that time, and is the same array contents in every state in which
  \<^verbatim>\<open>frame\<close> is invoked and after every invocation. An invocation that resizes assigns
  the new ratio to \<^verbatim>\<open>aspect\<close> (another leaves \<^verbatim>\<open>aspect\<close> alone), and even then the
  matrix it writes to the uniform buffer is the product of the startup projection with
  the view matrix of the moment.
\<close>

theorem projection_matrix_computed_once:
  assumes "startup d h = (evs0, Inr s0)"
    and "s = fst (run d (s0, requested evs0) inputs)"
  shows "projectionMatrix s0 =
      mat4_perspective d (js_quot (js_times 2 (Math_PI d)) 5)
        (js_div (canvas_width s0) (canvas_height s0)) 1 100
    \<and> aspect s0 = js_div (canvas_width s0) (canvas_height s0)
    \<and> projectionMatrix s = projectionMatrix s0
    \<and> projectionMatrix (frame_state d s i) = projectionMatrix s0
    \<and> (if needsResize s i
        then aspect (frame_state d s i) =
               js_div (canvas_width (frame_state d s i)) (canvas_height (frame_state d s i))
        else aspect (frame_state d s i) = aspect s)
    \<and> filter isWriteBuffer (frame_events d s i) =
        [WriteBuffer (uniformBuffer s) 0
           (mat4_multiply d (projectionMatrix s0) (viewMatrixAt d (Date_now i))
              (modelViewProjectionMatrix s))
           0 64]"
proof -
  have r: "ready d s"
    using assms by (rule reachable_ready)
  have p: "projectionMatrix s = projectionMatrix s0"
    using reachable_const [OF assms] by simp
  have a: "if needsResize s i
        then aspect (frame_state d s i) =
               js_div (canvas_width (frame_state d s i)) (canvas_height (frame_state d s i))
        else aspect (frame_state d s i) = aspect s"
    using ready_depth [OF r]
    by (cases "needsResize s i") (auto simp: frame_state_resize frame_state_keep)
  have len: "length (modelViewProjectionMatrix s) = 16"
    using r by (simp add: ready_def)
  have w: "filter isWriteBuffer (frame_events d s i) =
        [WriteBuffer (uniformBuffer s) 0
           (mat4_multiply d (projectionMatrix s0) (viewMatrixAt d (Date_now i))
              (modelViewProjectionMatrix s))
           0 64]"
    using len
    by (simp add: frame_events_writes [OF r] getTransformationMatrix_view_eq p
        byteOffset_def byteLength_def)
  show ?thesis
    using startup_success [OF assms(1)] p frame_state_const [OF r, of i] a w by auto
qed

theorem projection_matrix_computed_once_witness:
  "startup ex_deps ex_host = (ex_log, Inr ex_state)
   \<and> ex_state = fst (run ex_deps (ex_state, requested ex_log) [])
   \<and> (projectionMatrix ex_state =
      mat4_perspective ex_deps (js_quot (js_times 2 (Math_PI ex_deps)) 5)
        (js_div (canvas_width ex_state) (canvas_height ex_state)) 1 100
    \<and> aspect ex_state = js_div (canvas_width ex_state) (canvas_height ex_state)
    \<and> projectionMatrix ex_state = projectionMatrix ex_state
    \<and> projectionMatrix (frame_state ex_deps ex_state ex_doubled) = projectionMatrix ex_state
    \<and> (if needsResize ex_state ex_doubled
        then aspect (frame_state ex_deps ex_state ex_doubled) =
               js_div (canvas_width (frame_state ex_deps ex_state ex_doubled)) (canvas_height (frame_state ex_deps ex_state ex_doubled))
        else aspect (frame_state ex_deps ex_state ex_doubled) = aspect ex_state)
    \<and> filter isWriteBuffer (frame_events ex_deps ex_state ex_doubled) =
        [WriteBuffer (uniformBuffer ex_state) 0
           (mat4_multiply ex_deps (projectionMatrix ex_state) (viewMatrixAt ex_deps (Date_now ex_doubled))
              (modelViewProjectionMatrix ex_state))
           0 64])"
  by (rule conjI [OF ex_startup conjI [OF ex_run0
        projection_matrix_computed_once [OF ex_startup ex_run0, of ex_doubled]]])

section \<open>The size of the uniform buffer\<close>

text \<open>
  C10. The uniform buffer is created with size \<open>4 * 16\<close>, that is 64 bytes, and keeps that
  size. The only call of \<^verbatim>\<open>writeBuffer\<close> in an invocation of \<^verbatim>\<open>frame\<close> writes, at
  offset 0 of that buffer, a matrix whose byte length is 64: the write ends where the
  buffer ends, and afterwards the whole contents of the buffer are the matrix.
\<close>

theorem uniform_buffer_holds_exactly_the_matrix:
  assumes "startup d h = (evs0, Inr s0)"
    and "s = fst (run d (s0, requested evs0) inputs)"
  shows "CreateBuffer (uniformBuffer s0) (4 * 16) False \<in> set evs0
    \<and> uniformBuffer s = uniformBuffer s0
    \<and> (\<exists>x. buffers (device s) (uniformBuffer s) = Some x \<and> buf_size x = 64
          \<and> length (buf_data x) = 16)
    \<and> (\<exists>m. filter isWriteBuffer (frame_events d s i) =
            [WriteBuffer (uniformBuffer s) 0 m 0 (byteLength m)]
          \<and> byteLength m = 64
          \<and> buffers (device (frame_state d s i)) (uniformBuffer s) =
              Some \<lparr>buf_size = 64, buf_mapped = False, buf_data = m\<rparr>)"
proof -
  have r: "ready d s"
    using assms by (rule reachable_ready)
  have c: "CreateBuffer (uniformBuffer s0) (4 * 16) False \<in> set evs0"
    using startup_success [OF assms(1)] by auto
  have u: "uniformBuffer s = uniformBuffer s0"
    using reachable_const [OF assms] by simp
  have x: "\<exists>x. buffers (device s) (uniformBuffer s) = Some x \<and> buf_size x = 64
          \<and> length (buf_data x) = 16"
    using ready_uniform [OF r] by blast
  have len: "length (modelViewProjectionMatrix (getTransformationMatrix d (Date_now i) s)) = 16"
    using r by (simp add: ready_def)
  have w: "\<exists>m. filter isWriteBuffer (frame_events d s i) =
            [WriteBuffer (uniformBuffer s) 0 m 0 (byteLength m)]
          \<and> byteLength m = 64
          \<and> buffers (device (frame_state d s i)) (uniformBuffer s) =
              Some \<lparr>buf_size = 64, buf_mapped = False, buf_data = m\<rparr>"
    using len
    by (simp add: frame_events_writes [OF r] frame_uniform_after [OF r]
        byteOffset_def byteLength_def)
  show ?thesis
    using c u x w by (intro conjI)
qed

theorem uniform_buffer_holds_exactly_the_matrix_witness:
  "startup ex_deps ex_host = (ex_log, Inr ex_state)
   \<and> ex_state = fst (run ex_deps (ex_state, requested ex_log) [])
   \<and> (CreateBuffer (uniformBuffer ex_state) (4 * 16) False \<in> set ex_log
    \<and> uniformBuffer ex_state = uniformBuffer ex_state
    \<and> (\<exists>x. buffers (device ex_state) (uniformBuffer ex_state) = Some x \<and> buf_size x = 64
          \<and> length (buf_data x) = 16)
    \<and> (\<exists>m. filter isWriteBuffer (frame_events ex_deps ex_state ex_doubled) =
            [WriteBuffer (uniformBuffer ex_state) 0 m 0 (byteLength m)]
          \<and> byteLength m = 64
          \<and> buffers (device (frame_state ex_deps ex_state ex_doubled)) (uniformBuffer ex_state) =
              Some \<lparr>buf_size = 64, buf_mapped = False, buf_data = m\<rparr>))"
  by (rule conjI [OF ex_startup conjI [OF ex_run0
        uniform_buffer_holds_exactly_the_matrix [OF ex_startup ex_run0, of ex_doubled]]])

section \<open>One animation callback at a time\<close>

text \<open>
  C7. The module's top level registers \<^verbatim>\<open>frame\<close> with \<^verbatim>\<open>requestAnimationFrame\<close> exactly
  once, as its last action. Every invocation of \<^verbatim>\<open>frame\<close> returns normally and registers
  \<^verbatim>\<open>frame\<close> exactly once, as its last action, so the next invocation cannot begin before
  this one has done all its work. Hence after the startup and after every display
  refresh exactly one callback is pending, and a refresh invokes \<^verbatim>\<open>frame\<close> exactly once.
\<close>

theorem one_pending_animation_callback:
  assumes "startup d h = (evs0, Inr s0)"
    and "s = fst (run d (s0, requested evs0) inputs)"
  shows "requested evs0 = 1
    \<and> last evs0 = RequestAnimationFrame
    \<and> snd (run d (s0, requested evs0) inputs) = 1
    \<and> \<not> throws (frame d s i)
    \<and> requested (frame_events d s i) = 1
    \<and> last (frame_events d s i) = RequestAnimationFrame
    \<and> animationFrame d (s, 1) i = (frame_state d s i, 1)"
proof -
  have r0: "ready d s0"
    using assms(1) by (rule startup_ready)
  have r: "ready d s"
    using assms by (rule reachable_ready)
  have q: "requested evs0 = 1"
    using assms(1) by (rule startup_requested)
  have l: "last evs0 = RequestAnimationFrame"
    using startup_success [OF assms(1)] by auto
  have p: "snd (run d (s0, requested evs0) inputs) = 1"
    using run_ready [OF r0, of inputs] by (simp add: q)
  show ?thesis
    using q l p frame_not_throws [OF r, of i] requested_frame_events [OF r, of i]
      last_frame_events [OF r, of i] animationFrame_ready [OF r, of i]
    by simp
qed

theorem one_pending_animation_callback_witness:
  "startup ex_deps ex_host = (ex_log, Inr ex_state)
   \<and> requested ex_log = 1
   \<and> last ex_log = RequestAnimationFrame
   \<and> snd (run ex_deps (ex_state, requested ex_log) [ex_doubled, ex_hidden]) = 1
   \<and> \<not> throws (frame ex_deps 
       (fst (run ex_deps (ex_state, requested ex_log) [ex_doubled, ex_hidden])) ex_same)
   \<and> requested (frame_events ex_deps 
       (fst (run ex_deps (ex_state, requested ex_log) [ex_doubled, ex_hidden])) ex_same) = 1
   \<and> last (frame_events ex_deps 
       (fst (run ex_deps (ex_state, requested ex_log) [ex_doubled, ex_hidden])) ex_same) = RequestAnimationFrame
   \<and> animationFrame ex_deps (fst (run ex_deps (ex_state, requested ex_log) [ex_doubled, ex_hidden]), 1) ex_same = (frame_state ex_deps 
       (fst (run ex_deps (ex_state, requested ex_log) [ex_doubled, ex_hidden])) ex_same, 1)"
  by (rule conjI [OF ex_startup
        one_pending_animation_callback [OF ex_startup refl, of "[ex_doubled, ex_hidden]" ex_same]])

section \<open>The vertex buffer\<close>

text \<open>
  C8. At the module's top level the vertex buffer is created mapped, the vertex data are
  set into it once, and it is unmapped; these are the only events about it. In every
  state in which \<^verbatim>\<open>frame\<close> is invoked the buffer is unmapped and holds exactly the vertex
  data; no event of an invocation writes to it, and it holds the same data afterwards.
\<close>

theorem vertex_buffer_written_once:
  assumes "startup d h = (evs0, Inr s0)"
    and "s = fst (run d (s0, requested evs0) inputs)"
  shows "filter (concerns (verticesBuffer s0)) evs0 =
      [CreateBuffer (verticesBuffer s0) (byteLength (cubeVertexArray d)) True,
       MappedSet (verticesBuffer s0) (cubeVertexArray d),
       Unmap (verticesBuffer s0)]
    \<and> verticesBuffer s = verticesBuffer s0
    \<and> buffers (device s) (verticesBuffer s0) =
        Some \<lparr>buf_size = byteLength (cubeVertexArray d), buf_mapped = False,
              buf_data = cubeVertexArray d\<rparr>
    \<and> filter (writesTo (verticesBuffer s0)) (frame_events d s i) = []
    \<and> buffers (device (frame_state d s i)) (verticesBuffer s0) =
        Some \<lparr>buf_size = byteLength (cubeVertexArray d), buf_mapped = False,
              buf_data = cubeVertexArray d\<rparr>"
proof -
  have r: "ready d s"
    using assms by (rule reachable_ready)
  have v: "verticesBuffer s = verticesBuffer s0"
    using reachable_const [OF assms] by simp
  have v': "verticesBuffer (frame_state d s i) = verticesBuffer s0"
    using frame_state_const [OF r, of i] v by simp
  have a: "filter (concerns (verticesBuffer s0)) evs0 =
      [CreateBuffer (verticesBuffer s0) (byteLength (cubeVertexArray d)) True,
       MappedSet (verticesBuffer s0) (cubeVertexArray d),
       Unmap (verticesBuffer s0)]"
    using startup_success [OF assms(1)] by auto
  show ?thesis
    using a v ready_vertices [OF r] frame_no_vertex_write [OF r, of i]
      ready_vertices [OF ready_frame_state [OF r, of i]] v'
    by simp
qed

theorem vertex_buffer_written_once_witness:
  "startup ex_deps ex_host = (ex_log, Inr ex_state)
   \<and> ex_state = fst (run ex_deps (ex_state, requested ex_log) [])
   \<and> (filter (concerns (verticesBuffer ex_state)) ex_log =
      [CreateBuffer (verticesBuffer ex_state) (byteLength (cubeVertexArray ex_deps)) True,
       MappedSet (verticesBuffer ex_state) (cubeVertexArray ex_deps),
       Unmap (verticesBuffer ex_state)]
    \<and> verticesBuffer ex_state = verticesBuffer ex_state
    \<and> buffers (device ex_state) (verticesBuffer ex_state) =
        Some \<lparr>buf_size = byteLength (cubeVertexArray ex_deps), buf_mapped = False,
              buf_data = cubeVertexArray ex_deps\<rparr>
    \<and> filter (writesTo (verticesBuffer ex_state)) (frame_events ex_deps ex_state ex_doubled) = []
    \<and> buffers (device (frame_state ex_deps ex_state ex_doubled)) (verticesBuffer ex_state) =
        Some \<lparr>buf_size = byteLength (cubeVertexArray ex_deps), buf_mapped = False,
              buf_data = cubeVertexArray ex_deps\<rparr>)"
  by (rule conjI [OF ex_startup conjI [OF ex_run0
        vertex_buffer_written_once [OF ex_startup ex_run0, of ex_doubled]]])

section \<open>Failures at the module's top level\<close>

text \<open>
  C5. When \<^verbatim>\<open>navigator.gpu\<close> is absent the module logs one message to the console and
  goes on: the next statement, line 9, throws a TypeError, which ends the module
  uncaught. When it is present nothing is logged to the console, whatever happens later.
  No other failure is handled: a missing adapter, a rejected device request, a shader
  file that does not load, a missing canvas or context, a buffer mapping that cannot be
  allocated, each ends the module with that error, and the module reaches its end when
  none of them occurs.
\<close>

theorem missing_gpu_logged_other_failures_uncaught:
  "(\<not> navigator_gpu h \<longrightarrow>
      startup d h = ([ConsoleError ''WebGPU is not supported in this browser.''], Inl TypeError))
   \<and> (navigator_gpu h \<longrightarrow> filter isConsoleError (fst (startup d h)) = [])
   \<and> (navigator_gpu h \<and> \<not> adapter_found h \<longrightarrow> snd (startup d h) = Inl TypeError)
   \<and> (navigator_gpu h \<and> adapter_found h \<and> requestDevice_rejects h = Some e
        \<longrightarrow> snd (startup d h) = Inl e)
   \<and> (navigator_gpu h \<and> adapter_found h \<and> requestDevice_rejects h = None
        \<and> loadFile h = Inl e
        \<longrightarrow> snd (startup d h) = Inl e)
   \<and> (navigator_gpu h \<and> adapter_found h \<and> requestDevice_rejects h = None
        \<and> loadFile h = Inr code \<and> \<not> canvas_found h
        \<longrightarrow> snd (startup d h) = Inl TypeError)
   \<and> (navigator_gpu h \<and> adapter_found h \<and> requestDevice_rejects h = None
        \<and> loadFile h = Inr code \<and> canvas_found h \<and> \<not> context_found h
        \<longrightarrow> snd (startup d h) = Inl TypeError)
   \<and> (navigator_gpu h \<and> adapter_found h \<and> requestDevice_rejects h = None
        \<and> loadFile h = Inr code \<and> canvas_found h \<and> context_found h
        \<and> mapping_throws h = Some e
        \<longrightarrow> snd (startup d h) = Inl e)
   \<and> (navigator_gpu h \<and> adapter_found h \<and> requestDevice_rejects h = None
        \<and> loadFile h = Inr code \<and> canvas_found h \<and> context_found h
        \<and> mapping_throws h = None
        \<longrightarrow> \<not> throws (snd (startup d h)))"
proof -
  have a: "\<not> navigator_gpu h \<longrightarrow>
      startup d h = ([ConsoleError ''WebGPU is not supported in this browser.''], Inl TypeError)"
    by (simp add: startup_def)
  have b: "navigator_gpu h \<longrightarrow> filter isConsoleError (fst (startup d h)) = []"
    by (simp add: startup_def build_def Let_def split_def split: option.splits sum.splits)
  have c: "navigator_gpu h \<and> \<not> adapter_found h \<longrightarrow> snd (startup d h) = Inl TypeError"
    by (simp add: startup_def)
  have d1: "navigator_gpu h \<and> adapter_found h \<and> requestDevice_rejects h = Some e
        \<longrightarrow> snd (startup d h) = Inl e"
    by (simp add: startup_def)
  have d2: "navigator_gpu h \<and> adapter_found h \<and> requestDevice_rejects h = None
        \<and> loadFile h = Inl e
        \<longrightarrow> snd (startup d h) = Inl e"
    by (simp add: startup_def)
  have d3: "navigator_gpu h \<and> adapter_found h \<and> requestDevice_rejects h = None
        \<and> loadFile h = Inr code \<and> \<not> canvas_found h
        \<longrightarrow> snd (startup d h) = Inl TypeError"
    by (simp add: startup_def Let_def split_def)
  have d4: "navigator_gpu h \<and> adapter_found h \<and> requestDevice_rejects h = None
        \<and> loadFile h = Inr code \<and> canvas_found h \<and> \<not> context_found h
        \<longrightarrow> snd (startup d h) = Inl TypeError"
    by (simp add: startup_def Let_def split_def)
  have d5: "navigator_gpu h \<and> adapter_found h \<and> requestDevice_rejects h = None
        \<and> loadFile h = Inr code \<and> canvas_found h \<and> context_found h
        \<and> mapping_throws h = Some e
        \<longrightarrow> snd (startup d h) = Inl e"
    by (simp add: startup_def Let_def split_def)
  have d6: "navigator_gpu h \<and> adapter_found h \<and> requestDevice_rejects h = None
        \<and> loadFile h = Inr code \<and> canvas_found h \<and> context_found h
        \<and> mapping_throws h = None
        \<longrightarrow> \<not> throws (snd (startup d h))"
    using startup_defs_ok [of h code d] by blast
  show ?thesis
    using a b c d1 d2 d3 d4 d5 d6 by (intro conjI)
qed

theorem missing_gpu_logged_other_failures_uncaught_witness:
  "(\<not> navigator_gpu ex_host_nogpu
      \<and> startup ex_deps ex_host_nogpu =
          ([ConsoleError ''WebGPU is not supported in this browser.''], Inl TypeError))
   \<and> (navigator_gpu ex_host \<and> filter isConsoleError (fst (startup ex_deps ex_host)) = [])
   \<and> (navigator_gpu ex_host_noadapter \<and> \<not> adapter_found ex_host_noadapter
        \<and> snd (startup ex_deps ex_host_noadapter) = Inl TypeError)
   \<and> (navigator_gpu ex_host_nodevice \<and> adapter_found ex_host_nodevice
        \<and> requestDevice_rejects ex_host_nodevice = Some OperationError
        \<and> snd (startup ex_deps ex_host_nodevice) = Inl OperationError)
   \<and> (navigator_gpu ex_host_noshader \<and> adapter_found ex_host_noshader
        \<and> requestDevice_rejects ex_host_noshader = None
        \<and> loadFile ex_host_noshader = Inl LoadError
        \<and> snd (startup ex_deps ex_host_noshader) = Inl LoadError)
   \<and> (navigator_gpu ex_host_nocanvas \<and> adapter_found ex_host_nocanvas
        \<and> requestDevice_rejects ex_host_nocanvas = None
        \<and> loadFile ex_host_nocanvas = Inr ''cube.wgsl'' \<and> \<not> canvas_found ex_host_nocanvas
        \<and> snd (startup ex_deps ex_host_nocanvas) = Inl TypeError)
   \<and> (navigator_gpu ex_host_nocontext \<and> adapter_found ex_host_nocontext
        \<and> requestDevice_rejects ex_host_nocontext = None
        \<and> loadFile ex_host_nocontext = Inr ''cube.wgsl'' \<and> canvas_found ex_host_nocontext
        \<and> \<not> context_found ex_host_nocontext
        \<and> snd (startup ex_deps ex_host_nocontext) = Inl TypeError)
   \<and> (navigator_gpu ex_host_nomapping \<and> adapter_found ex_host_nomapping
        \<and> requestDevice_rejects ex_host_nomapping = None
        \<and> loadFile ex_host_nomapping = Inr ''cube.wgsl'' \<and> canvas_found ex_host_nomapping
        \<and> context_found ex_host_nomapping
        \<and> mapping_throws ex_host_nomapping = Some RangeError
        \<and> snd (startup ex_deps ex_host_nomapping) = Inl RangeError)
   \<and> (navigator_gpu ex_host \<and> adapter_found ex_host
        \<and> requestDevice_rejects ex_host = None
        \<and> loadFile ex_host = Inr ''cube.wgsl'' \<and> canvas_found ex_host
        \<and> context_found ex_host
        \<and> mapping_throws ex_host = None
        \<and> \<not> throws (snd (startup ex_deps ex_host)))"
  using missing_gpu_logged_other_failures_uncaught [of ex_host_nogpu ex_deps]
    missing_gpu_logged_other_failures_uncaught [of ex_host ex_deps _ "''cube.wgsl''"]
    missing_gpu_logged_other_failures_uncaught [of ex_host_noadapter ex_deps]
    missing_gpu_logged_other_failures_uncaught [of ex_host_nodevice ex_deps OperationError]
    missing_gpu_logged_other_failures_uncaught [of ex_host_noshader ex_deps LoadError]
    missing_gpu_logged_other_failures_uncaught [of ex_host_nocanvas ex_deps _ "''cube.wgsl''"]
    missing_gpu_logged_other_failures_uncaught [of ex_host_nocontext ex_deps _ "''cube.wgsl''"]
    missing_gpu_logged_other_failures_uncaught
      [of ex_host_nomapping ex_deps RangeError "''cube.wgsl''"]
  by (simp add: ex_host_def ex_host_nogpu_def ex_host_noadapter_def ex_host_nodevice_def
      ex_host_noshader_def ex_host_nocanvas_def ex_host_nocontext_def ex_host_nomapping_def)

section \<open>A canvas of no size\<close>

text \<open>
  C6, the code at an input where it creates a depth texture of no size. On a display of
  ratio 1/2 the module has reached a canvas of 150 by 75; the canvas is then laid out at
  1 by 1. The products of line 112 and 113 are 1/2: they are not zero, so the guard of
  line 115 lets the invocation of \<^verbatim>\<open>frame\<close> resize; the canvas, whose attributes are
  integers, becomes 0 by 0, and the depth texture that the invocation creates has the
  size 0 by 0. The module's top level has no guard at all: with a canvas that is not
  laid out when the module starts, the first depth texture is created with the size 0 by
  0.
\<close>

theorem layout_below_one_pixel_creates_empty_texture:
  "startup ex_deps ex_host_half = (ex_log_half, Inr ex_state_half)
   \<and> ex_state_half = fst (run ex_deps (ex_state_half, requested ex_log_half) [])
   \<and> currentWidth ex_state_half ex_tiny = 1 / 2
   \<and> currentHeight ex_state_half ex_tiny = 1 / 2
   \<and> filter isLifecycle (frame_events ex_deps ex_state_half ex_tiny) =
       [DestroyTexture 3, CreateTexture 6 0 0]
   \<and> canvas_width (frame_state ex_deps ex_state_half ex_tiny) = 0
   \<and> canvas_height (frame_state ex_deps ex_state_half ex_tiny) = 0
   \<and> CreateTexture 3 0 0 \<in> set (fst (startup ex_deps ex_host_hidden))"
proof -
  have cw: "currentWidth ex_state_half ex_tiny = 1 / 2"
    and ch: "currentHeight ex_state_half ex_tiny = 1 / 2"
    by (simp_all add: currentWidth_def currentHeight_def ex_state_half_def ex_state_def
        ex_tiny_def ex_numbers)
  have cv: "canvas_width ex_state_half = 150" "canvas_height ex_state_half = 75"
    by (simp_all add: ex_state_half_def)
  have n: "needsResize ex_state_half ex_tiny"
    by (simp add: needsResize_def cw ch cv)
  have z: "canvas_dimension 300 (1 / 2) = 0" "canvas_dimension 150 (1 / 2) = 0"
    by (simp_all add: canvas_dimension_def ToUnsignedLong_def)
  have dt: "depthTexture ex_state_half = Some 3"
    and nh: "next_handle (device ex_state_half) = 6"
    by (simp_all add: ex_state_half_def ex_state_def)
  have e: "filter isLifecycle (frame_events ex_deps ex_state_half ex_tiny) =
       [DestroyTexture 3, CreateTexture 6 0 0]"
    by (simp add: frame_events_resize [OF n] resize_events cw ch z dt nh)
  have w: "canvas_width (frame_state ex_deps ex_state_half ex_tiny) = 0"
    and h: "canvas_height (frame_state ex_deps ex_state_half ex_tiny) = 0"
    by (simp_all add: frame_state_resize [OF n] cw ch z)
  show ?thesis
    using ex_startup_half ex_run0_half cw ch e w h ex_startup_hidden by (intro conjI)
qed

section \<open>When the depth texture is recreated\<close>

text \<open>
  C4, the code at an input where it recreates the depth texture although the canvas
  size does not change. On a display of ratio 3/2 with the canvas laid out at 201 by 101
  the module has reached a canvas of 301 by 151. The products of lines 112 and 113 are
  603/2 and 303/2; line 115 compares them, as they are, with the integers that the
  canvas holds, so every invocation of \<^verbatim>\<open>frame\<close> with this layout destroys the depth
  texture and creates another of the same size, 301 by 151, and leaves the canvas at 301
  by 151: the canvas size was not set to the product, and the next invocation does the
  same again.
\<close>

theorem fractional_size_recreates_every_frame:
  "startup ex_deps ex_host_hidpi = (ex_log_hidpi, Inr ex_state_hidpi)
   \<and> ex_state_hidpi = fst (run ex_deps (ex_state_hidpi, requested ex_log_hidpi) [])
   \<and> canvas_width ex_state_hidpi = 301 \<and> canvas_height ex_state_hidpi = 151
   \<and> currentWidth ex_state_hidpi ex_odd = 603 / 2
   \<and> currentHeight ex_state_hidpi ex_odd = 303 / 2
   \<and> filter isLifecycle (frame_events ex_deps ex_state_hidpi ex_odd) =
       [DestroyTexture 3, CreateTexture 6 301 151]
   \<and> canvas_width (frame_state ex_deps ex_state_hidpi ex_odd) = 301
   \<and> canvas_height (frame_state ex_deps ex_state_hidpi ex_odd) = 151
   \<and> filter isLifecycle
        (frame_events ex_deps (frame_state ex_deps ex_state_hidpi ex_odd) ex_odd) =
       [DestroyTexture 6, CreateTexture 7 301 151]
   \<and> canvas_width
        (frame_state ex_deps (frame_state ex_deps ex_state_hidpi ex_odd) ex_odd) = 301
   \<and> canvas_height
        (frame_state ex_deps (frame_state ex_deps ex_state_hidpi ex_odd) ex_odd) = 151"
proof -
  have cv: "canvas_width ex_state_hidpi = 301" "canvas_height ex_state_hidpi = 151"
    and dt: "depthTexture ex_state_hidpi = Some 3"
    and nh: "next_handle (device ex_state_hidpi) = 6"
    by (simp_all add: ex_state_hidpi_def ex_state_def)
  have cw: "currentWidth ex_state_hidpi ex_odd = 603 / 2"
    and ch: "currentHeight ex_state_hidpi ex_odd = 303 / 2"
    by (simp_all add: currentWidth_def currentHeight_def ex_state_hidpi_def ex_state_def
        ex_odd_def ex_numbers)
  have n: "needsResize ex_state_hidpi ex_odd"
    by (simp add: needsResize_def cw ch cv)
  have z: "canvas_dimension 300 (603 / 2) = 301" "canvas_dimension 150 (303 / 2) = 151"
    by (simp_all add: canvas_dimension_def ToUnsignedLong_def floor_rat_numeral)
  have e: "filter isLifecycle (frame_events ex_deps ex_state_hidpi ex_odd) =
       [DestroyTexture 3, CreateTexture 6 301 151]"
    by (simp add: frame_events_resize [OF n] resize_events cw ch z dt nh)
  have w: "canvas_width (frame_state ex_deps ex_state_hidpi ex_odd) = 301"
    "canvas_height (frame_state ex_deps ex_state_hidpi ex_odd) = 151"
    by (simp_all add: frame_state_resize [OF n] cw ch z)
  let ?s = "frame_state ex_deps ex_state_hidpi ex_odd"
  have r: "devicePixelRatio ?s = devicePixelRatio ex_state_hidpi"
    and dt': "depthTexture ?s = Some 6" and nh': "next_handle (device ?s) = 7"
    by (simp_all add: frame_state_resize [OF n] nh)
  have cw': "currentWidth ?s ex_odd = 603 / 2" and ch': "currentHeight ?s ex_odd = 303 / 2"
    using cw ch by (simp_all add: currentWidth_def currentHeight_def r)
  have n': "needsResize ?s ex_odd"
    by (simp add: needsResize_def cw' ch' w)
  have e': "filter isLifecycle (frame_events ex_deps ?s ex_odd) =
       [DestroyTexture 6, CreateTexture 7 301 151]"
    by (simp add: frame_events_resize [OF n'] resize_events cw' ch' z dt' nh')
  have w': "canvas_width (frame_state ex_deps ?s ex_odd) = 301"
    "canvas_height (frame_state ex_deps ?s ex_odd) = 151"
    by (simp_all add: frame_state_resize [OF n'] cw' ch' z)
  show ?thesis
    using ex_startup_hidpi ex_run0_hidpi cv cw ch e w e' w' by (intro conjI)
qed

section \<open>One write of the matrix, one submission, one draw\<close>

text \<open>
  C2. Every invocation of \<^verbatim>\<open>frame\<close> returns normally. It recomputes the model-view-projection
  matrix: the identity, translated by \<open>(0, 0, - 4)\<close>, rotated by the angle 1 about the axis
  \<open>(sin now, cos now, 0)\<close> with \<open>now\<close> the clock in seconds, multiplied from the left by
  the projection matrix, the sixteen entries of the product written into the array
  \<^verbatim>\<open>modelViewProjectionMatrix\<close>. It writes that array to the uniform buffer at offset 0
  (all its bytes, from byte offset 0 of the array), and after that submits once, one
  command buffer, whose only draw call draws \<^verbatim>\<open>cubeVertexCount\<close> vertices. Nothing else
  is written or submitted, and the uniform buffer then holds the matrix.
\<close>

theorem frame_updates_matrix_and_draws_once:
  assumes "startup d h = (evs0, Inr s0)"
    and "s = fst (run d (s0, requested evs0) inputs)"
  shows "\<not> throws (frame d s i)
    \<and> modelViewProjectionMatrix (frame_state d s i) =
        modelViewProjectionMatrix (getTransformationMatrix d (Date_now i) s)
    \<and> modelViewProjectionMatrix (frame_state d s i) =
        mat4_multiply d (projectionMatrix s)
          (mat4_rotate d
             (mat4_translate d mat4_identity (vec3_fromValues 0 0 (- 4)) mat4_identity)
             (vec3_fromValues (Math_sin d (js_quot (of_nat (Date_now i)) 1000))
                (Math_cos d (js_quot (of_nat (Date_now i)) 1000)) 0)
             1
             (mat4_translate d mat4_identity (vec3_fromValues 0 0 (- 4)) mat4_identity))
          (modelViewProjectionMatrix s)
    \<and> length (modelViewProjectionMatrix (frame_state d s i)) = 16
    \<and> (\<exists>cb. filter isQueueWork (frame_events d s i) =
          [WriteBuffer (uniformBuffer s) 0 (modelViewProjectionMatrix (frame_state d s i)) 0
             (byteLength (modelViewProjectionMatrix (frame_state d s i))),
           Submit [cb]]
        \<and> draws cb = [cubeVertexCount d])
    \<and> (\<exists>x. buffers (device (frame_state d s i)) (uniformBuffer s) = Some x
        \<and> buf_data x = modelViewProjectionMatrix (frame_state d s i))"
proof -
  have r: "ready d s"
    using assms by (rule reachable_ready)
  have m: "modelViewProjectionMatrix (frame_state d s i) =
      modelViewProjectionMatrix (getTransformationMatrix d (Date_now i) s)"
    using frame_state_const [OF r] by simp
  have v: "modelViewProjectionMatrix (frame_state d s i) =
        mat4_multiply d (projectionMatrix s)
          (mat4_rotate d
             (mat4_translate d mat4_identity (vec3_fromValues 0 0 (- 4)) mat4_identity)
             (vec3_fromValues (Math_sin d (js_quot (of_nat (Date_now i)) 1000))
                (Math_cos d (js_quot (of_nat (Date_now i)) 1000)) 0)
             1
             (mat4_translate d mat4_identity (vec3_fromValues 0 0 (- 4)) mat4_identity))
          (modelViewProjectionMatrix s)"
    by (simp add: m getTransformationMatrix_def Let_def)
  have len: "length (modelViewProjectionMatrix (frame_state d s i)) = 16"
    using r by (simp add: m ready_def)
  have q: "\<exists>cb. filter isQueueWork (frame_events d s i) =
          [WriteBuffer (uniformBuffer s) 0 (modelViewProjectionMatrix (frame_state d s i)) 0
             (byteLength (modelViewProjectionMatrix (frame_state d s i))),
           Submit [cb]]
        \<and> draws cb = [cubeVertexCount d]"
    using frame_events_queue [OF r, of i] by (auto simp: m byteOffset_def)
  have b: "\<exists>x. buffers (device (frame_state d s i)) (uniformBuffer s) = Some x
        \<and> buf_data x = modelViewProjectionMatrix (frame_state d s i)"
    by (simp add: frame_uniform_after [OF r] m)
  show ?thesis
    using frame_not_throws [OF r, of i] m v len q b by (intro conjI)
qed

theorem frame_updates_matrix_and_draws_once_witness:
  "startup ex_deps ex_host = (ex_log, Inr ex_state)
   \<and> ex_state = fst (run ex_deps (ex_state, requested ex_log) [])
   \<and> (\<not> throws (frame ex_deps ex_state ex_same)
    \<and> modelViewProjectionMatrix (frame_state ex_deps ex_state ex_same) =
        modelViewProjectionMatrix (getTransformationMatrix ex_deps (Date_now ex_same) ex_state)
    \<and> modelViewProjectionMatrix (frame_state ex_deps ex_state ex_same) =
        mat4_multiply ex_deps (projectionMatrix ex_state)
          (mat4_rotate ex_deps
             (mat4_translate ex_deps mat4_identity (vec3_fromValues 0 0 (- 4)) mat4_identity)
             (vec3_fromValues (Math_sin ex_deps (js_quot (of_nat (Date_now ex_same)) 1000))
                (Math_cos ex_deps (js_quot (of_nat (Date_now ex_same)) 1000)) 0)
             1
             (mat4_translate ex_deps mat4_identity (vec3_fromValues 0 0 (- 4)) mat4_identity))
          (modelViewProjectionMatrix ex_state)
    \<and> length (modelViewProjectionMatrix (frame_state ex_deps ex_state ex_same)) = 16
    \<and> (\<exists>cb. filter isQueueWork (frame_events ex_deps ex_state ex_same) =
          [WriteBuffer (uniformBuffer ex_state) 0 (modelViewProjectionMatrix (frame_state ex_deps ex_state ex_same)) 0
             (byteLength (modelViewProjectionMatrix (frame_state ex_deps ex_state ex_same))),
           Submit [cb]]
        \<and> draws cb = [cubeVertexCount ex_deps])
    \<and> (\<exists>x. buffers (device (frame_state ex_deps ex_state ex_same)) (uniformBuffer ex_state) = Some x
        \<and> buf_data x = modelViewProjectionMatrix (frame_state ex_deps ex_state ex_same)))"
  by (rule conjI [OF ex_startup conjI [OF ex_run0
        frame_updates_matrix_and_draws_once [OF ex_startup ex_run0, of ex_same]]])

section \<open>The lifetime of the resources\<close>




end
